theory Spec2Isabelle
  imports Complex_Main "HOL-Library.Multiset" "HOL-Library.Product_Lexorder"
begin

section \<open>JavaScript values read and produced by the request handlers\<close>

text \<open>
  The handlers of \<^verbatim>\<open>src/app.js\<close> read path parameters (always strings) and
  query-string values. A query-string value is absent (\<^verbatim>\<open>undefined\<close>, modelled by
  \<open>None\<close>), a string, or, for repeated or bracketed keys, an array or an object of
  further values. Strings are lists of 8-bit characters standing for code units below 256.
\<close>

datatype qsval = QStr string | QArr "qsval list" | QObj "(string \<times> qsval) list"

text \<open>
  A JavaScript number is \<^verbatim>\<open>NaN\<close>, an infinity, or a finite double. A finite double is
  represented by a rational: \<open>Num r\<close> stands for the double nearest to \<open>r\<close>. Both zeros
  are \<open>Num 0\<close>.
\<close>

datatype jsnum = NaN | Num rat | PosInfinity | NegInfinity

text \<open>
  Rounding a mathematical value to a double: magnitudes up to half the least subnormal
  become zero, magnitudes from the largest double plus half an ulp on become infinite.
\<close>

definition to_double :: "rat \<Rightarrow> jsnum" where
  "to_double r =
     (if \<bar>r\<bar> \<le> 1 / 2 ^ 1075 then Num 0
      else if 2 ^ 1024 - 2 ^ 970 \<le> \<bar>r\<bar> then (if r < 0 then NegInfinity else PosInfinity)
      else Num r)"

text \<open>Truthiness of a number: \<^verbatim>\<open>NaN\<close> and zero are falsy.\<close>

fun truthy_num :: "jsnum \<Rightarrow> bool" where
  "truthy_num NaN = False"
| "truthy_num (Num r) = (r \<noteq> 0)"
| "truthy_num PosInfinity = True"
| "truthy_num NegInfinity = True"

text \<open>\<^verbatim>\<open>a || b\<close> on numbers.\<close>

definition js_or :: "jsnum \<Rightarrow> jsnum \<Rightarrow> jsnum" where
  "js_or a b = (if truthy_num a then a else b)"

text \<open>
  Truthiness of a query-string value: absent and the empty string are falsy, every other
  string, every array and every object is truthy.
\<close>

fun truthy :: "qsval option \<Rightarrow> bool" where
  "truthy None = False"
| "truthy (Some (QStr s)) = (s \<noteq> [])"
| "truthy (Some (QArr xs)) = True"
| "truthy (Some (QObj kvs)) = True"

subsection \<open>ToString, parseInt and parseFloat\<close>

text \<open>What the \<^verbatim>\<open>try\<close> block of a handler can catch.\<close>

datatype js_error = DbError string | TypeError string

fun join :: "string \<Rightarrow> string list \<Rightarrow> string" where
  "join sep [] = []"
| "join sep [x] = x"
| "join sep (x # y # ys) = x @ sep @ join sep (y # ys)"

text \<open>The results of a list of conversions, or the first error among them.\<close>

fun first_error :: "(js_error + 'a) list \<Rightarrow> js_error + 'a list" where
  "first_error [] = Inr []"
| "first_error (Inl e # rs) = Inl e"
| "first_error (Inr x # rs) =
     (case first_error rs of Inl e \<Rightarrow> Inl e | Inr xs \<Rightarrow> Inr (x # xs))"

text \<open>
  The conversion of a query-string value to a string, as \<^verbatim>\<open>parseInt\<close>,
  \<^verbatim>\<open>parseFloat\<close> and a template literal apply it. A string is itself. An array joins
  the conversions of its elements with commas. An object gives \<^verbatim>\<open>[object Object]\<close>
  through the inherited \<^verbatim>\<open>toString\<close>, unless it has a key \<^verbatim>\<open>toString\<close> of its own:
  the value under that key is not callable, \<^verbatim>\<open>valueOf\<close> gives no primitive either,
  and the conversion throws a TypeError.
\<close>

fun js_ToString :: "qsval \<Rightarrow> js_error + string" where
  "js_ToString (QStr s) = Inr s"
| "js_ToString (QArr xs) =
     (case first_error (map js_ToString xs) of
        Inl e \<Rightarrow> Inl e
      | Inr ss \<Rightarrow> Inr (join '','' ss))"
| "js_ToString (QObj kvs) =
     (if ''toString'' \<in> set (map fst kvs)
      then Inl (TypeError ''Cannot convert object to primitive value'')
      else Inr ''[object Object]'')"

definition ToString :: "qsval option \<Rightarrow> js_error + string" where
  "ToString v = (case v of None \<Rightarrow> Inr ''undefined'' | Some x \<Rightarrow> js_ToString x)"

definition is_whitespace :: "char \<Rightarrow> bool" where
  "is_whitespace c \<longleftrightarrow>
     c \<in> set [CHR 0x09, CHR 0x0A, CHR 0x0B, CHR 0x0C, CHR 0x0D, CHR 0x20, CHR 0xA0]"

definition digit_of :: "char \<Rightarrow> nat option" where
  "digit_of c =
     (let n = (of_char c :: nat) in
      if 48 \<le> n \<and> n \<le> 57 then Some (n - 48)
      else if 97 \<le> n \<and> n \<le> 122 then Some (n - 87)
      else if 65 \<le> n \<and> n \<le> 90 then Some (n - 55)
      else None)"

text \<open>The longest prefix of digits of radix \<open>R\<close>, as digit values, and what follows it.\<close>

fun take_digits :: "nat \<Rightarrow> string \<Rightarrow> nat list \<times> string" where
  "take_digits R [] = ([], [])"
| "take_digits R (c # cs) =
     (case digit_of c of
        None \<Rightarrow> ([], c # cs)
      | Some d \<Rightarrow>
          if d < R then (case take_digits R cs of (ds, rest) \<Rightarrow> (d # ds, rest))
          else ([], c # cs))"

definition digits_value :: "nat \<Rightarrow> nat list \<Rightarrow> nat" where
  "digits_value R ds = foldl (\<lambda>a d. a * R + d) 0 ds"

text \<open>An optional sign: its factor and the text after it.\<close>

fun strip_sign :: "string \<Rightarrow> int \<times> string" where
  "strip_sign [] = (1, [])"
| "strip_sign (c # cs) =
     (if c = CHR ''-'' then (- 1, cs) else if c = CHR ''+'' then (1, cs) else (1, c # cs))"

text \<open>
  \<^verbatim>\<open>parseInt\<close> without a radix, on the text of its argument: leading white space is
  dropped, a sign is read, a prefix \<^verbatim>\<open>0x\<close> selects radix 16, and the longest digit
  prefix is the value; no digit gives \<^verbatim>\<open>NaN\<close>.
\<close>

definition parseInt_text :: "string \<Rightarrow> jsnum" where
  "parseInt_text text =
     (case strip_sign (dropWhile is_whitespace text) of (sign, S) \<Rightarrow>
        (case (if take 2 S = ''0x'' \<or> take 2 S = ''0X'' then (16, drop 2 S) else (10, S)) of
           (R, S') \<Rightarrow>
             (case take_digits R S' of (Z, rest) \<Rightarrow>
                if Z = [] then NaN
                else to_double (of_int sign * of_nat (digits_value R Z)))))"

text \<open>\<^verbatim>\<open>parseInt(v)\<close>: the argument is converted to a string first, which can throw.\<close>

definition parseInt :: "qsval option \<Rightarrow> js_error + jsnum" where
  "parseInt v = (case ToString v of Inl e \<Rightarrow> Inl e | Inr text \<Rightarrow> Inr (parseInt_text text))"

text \<open>The exponent part \<^verbatim>\<open>e\<close>, sign, digits; zero when the text has none.\<close>

fun exponent_part :: "string \<Rightarrow> int" where
  "exponent_part [] = 0"
| "exponent_part (c # cs) =
     (if c = CHR ''e'' \<or> c = CHR ''E'' then
        (case strip_sign cs of (sg, cs') \<Rightarrow>
           (case take_digits 10 cs' of (ds, rest) \<Rightarrow>
              if ds = [] then 0 else sg * int (digits_value 10 ds)))
      else 0)"

definition pow10 :: "int \<Rightarrow> rat" where
  "pow10 e = (if 0 \<le> e then 10 ^ nat e else 1 / 10 ^ nat (- e))"

text \<open>
  \<^verbatim>\<open>parseFloat\<close> on the text of its argument: leading white space is dropped and the
  longest prefix that is a decimal literal (sign, \<^verbatim>\<open>Infinity\<close> or digits with an
  optional fraction and exponent) is the value; no such prefix gives \<^verbatim>\<open>NaN\<close>.
\<close>

definition parseFloat_text :: "string \<Rightarrow> jsnum" where
  "parseFloat_text text =
     (case strip_sign (dropWhile is_whitespace text) of (sign, S) \<Rightarrow>
        if take 8 S = ''Infinity'' then (if sign < 0 then NegInfinity else PosInfinity)
        else
          (case take_digits 10 S of (ip, r1) \<Rightarrow>
             (case (case r1 of [] \<Rightarrow> ([], r1)
                    | c # cs \<Rightarrow> if c = CHR ''.'' then take_digits 10 cs else ([], r1)) of
                (fp, r2) \<Rightarrow>
                  if ip = [] \<and> fp = [] then NaN
                  else to_double (of_int sign
                         * (of_nat (digits_value 10 (ip @ fp)) / 10 ^ length fp)
                         * pow10 (exponent_part r2)))))"

text \<open>\<^verbatim>\<open>parseFloat(v)\<close>: the argument is converted to a string first, which can throw.\<close>

definition parseFloat :: "qsval option \<Rightarrow> js_error + jsnum" where
  "parseFloat v =
     (case ToString v of Inl e \<Rightarrow> Inl e | Inr text \<Rightarrow> Inr (parseFloat_text text))"

text \<open>\<^verbatim>\<open>s.split(',')\<close>: the pieces between separators; the empty string has one piece.\<close>

fun split_on :: "char \<Rightarrow> string \<Rightarrow> string list" where
  "split_on sep [] = [[]]"
| "split_on sep (c # cs) =
     (if c = sep then [] # split_on sep cs
      else (case split_on sep cs of [] \<Rightarrow> [[c]] | w # ws \<Rightarrow> (c # w) # ws))"

section \<open>The query texts\<close>

text \<open>
  The ten templates of \<^verbatim>\<open>src/app.js\<close>, line by line as written between the
  backquotes. Only the student-performance template has an interpolation,
  \<^verbatim>\<open>${grade ? 'AND s.grade = ?' : ''}\<close>: its text is the part before, the chosen
  fragment, and the part after.
\<close>

definition students_by_grade_query :: string where
  "students_by_grade_query = concat
    [''\<newline>'',
     ''      SELECT \<newline>'',
     ''        student_id,\<newline>'',
     ''        first_name,\<newline>'',
     ''        last_name,\<newline>'',
     ''        email,\<newline>'',
     ''        grade,\<newline>'',
     ''        enrollment_date\<newline>'',
     ''      FROM students\<newline>'',
     ''      WHERE grade = ?\<newline>'',
     ''      ORDER BY last_name, first_name\<newline>'',
     ''    '']"

definition student_enrollments_query :: string where
  "student_enrollments_query = concat
    [''\<newline>'',
     ''      SELECT \<newline>'',
     ''        s.student_id,\<newline>'',
     ''        s.first_name,\<newline>'',
     ''        s.last_name,\<newline>'',
     ''        c.course_id,\<newline>'',
     ''        c.course_name,\<newline>'',
     ''        c.credits,\<newline>'',
     ''        e.enrollment_date,\<newline>'',
     ''        e.grade\<newline>'',
     ''      FROM students s\<newline>'',
     ''      INNER JOIN enrollments e ON s.student_id = e.student_id\<newline>'',
     ''      INNER JOIN courses c ON e.course_id = c.course_id\<newline>'',
     ''      WHERE s.student_id = ?\<newline>'',
     ''      ORDER BY e.enrollment_date DESC\<newline>'',
     ''    '']"

definition all_with_enrollments_query :: string where
  "all_with_enrollments_query = concat
    [''\<newline>'',
     ''      SELECT \<newline>'',
     ''        s.student_id,\<newline>'',
     ''        s.first_name,\<newline>'',
     ''        s.last_name,\<newline>'',
     ''        s.grade,\<newline>'',
     ''        COUNT(e.enrollment_id) as total_enrollments,\<newline>'',
     ''        GROUP_CONCAT(c.course_name SEPARATOR ', ') as courses\<newline>'',
     ''      FROM students s\<newline>'',
     ''      LEFT JOIN enrollments e ON s.student_id = e.student_id\<newline>'',
     ''      LEFT JOIN courses c ON e.course_id = c.course_id\<newline>'',
     ''      GROUP BY s.student_id, s.first_name, s.last_name, s.grade\<newline>'',
     ''      ORDER BY s.last_name\<newline>'',
     ''    '']"

definition students_per_grade_query :: string where
  "students_per_grade_query = concat
    [''\<newline>'',
     ''      SELECT \<newline>'',
     ''        grade,\<newline>'',
     ''        COUNT(*) as student_count,\<newline>'',
     ''        COUNT(DISTINCT email) as unique_emails\<newline>'',
     ''      FROM students\<newline>'',
     ''      GROUP BY grade\<newline>'',
     ''      ORDER BY grade\<newline>'',
     ''    '']"

definition popular_courses_query :: string where
  "popular_courses_query = concat
    [''\<newline>'',
     ''      SELECT \<newline>'',
     ''        c.course_id,\<newline>'',
     ''        c.course_name,\<newline>'',
     ''        c.credits,\<newline>'',
     ''        COUNT(e.enrollment_id) as enrollment_count,\<newline>'',
     ''        AVG(CASE \<newline>'',
     ''          WHEN e.grade = 'A' THEN 4.0\<newline>'',
     ''          WHEN e.grade = 'B' THEN 3.0\<newline>'',
     ''          WHEN e.grade = 'C' THEN 2.0\<newline>'',
     ''          WHEN e.grade = 'D' THEN 1.0\<newline>'',
     ''          ELSE 0.0\<newline>'',
     ''        END) as average_gpa\<newline>'',
     ''      FROM courses c\<newline>'',
     ''      INNER JOIN enrollments e ON c.course_id = e.course_id\<newline>'',
     ''      GROUP BY c.course_id, c.course_name, c.credits\<newline>'',
     ''      HAVING COUNT(e.enrollment_id) >= ?\<newline>'',
     ''      ORDER BY enrollment_count DESC, average_gpa DESC\<newline>'',
     ''    '']"

definition student_performance_query_head :: string where
  "student_performance_query_head = concat
    [''\<newline>'',
     ''      SELECT \<newline>'',
     ''        s.student_id,\<newline>'',
     ''        s.first_name,\<newline>'',
     ''        s.last_name,\<newline>'',
     ''        s.grade as student_grade,\<newline>'',
     ''        COUNT(e.enrollment_id) as courses_taken,\<newline>'',
     ''        SUM(c.credits) as total_credits,\<newline>'',
     ''        AVG(CASE \<newline>'',
     ''          WHEN e.grade = 'A' THEN 4.0\<newline>'',
     ''          WHEN e.grade = 'B' THEN 3.0\<newline>'',
     ''          WHEN e.grade = 'C' THEN 2.0\<newline>'',
     ''          WHEN e.grade = 'D' THEN 1.0\<newline>'',
     ''          WHEN e.grade = 'F' THEN 0.0\<newline>'',
     ''        END) as gpa,\<newline>'',
     ''        GROUP_CONCAT(\<newline>'',
     ''          CONCAT(c.course_name, ' (', e.grade, ')')\<newline>'',
     ''          ORDER BY e.enrollment_date DESC\<newline>'',
     ''          SEPARATOR ' | '\<newline>'',
     ''        ) as course_history\<newline>'',
     ''      FROM students s\<newline>'',
     ''      INNER JOIN enrollments e ON s.student_id = e.student_id\<newline>'',
     ''      INNER JOIN courses c ON e.course_id = c.course_id\<newline>'',
     ''      WHERE 1=1\<newline>'',
     ''        '']"

definition student_performance_query_tail :: string where
  "student_performance_query_tail = concat
    [''\<newline>'',
     ''      GROUP BY s.student_id, s.first_name, s.last_name, s.grade\<newline>'',
     ''      HAVING AVG(CASE \<newline>'',
     ''        WHEN e.grade = 'A' THEN 4.0\<newline>'',
     ''        WHEN e.grade = 'B' THEN 3.0\<newline>'',
     ''        WHEN e.grade = 'C' THEN 2.0\<newline>'',
     ''        WHEN e.grade = 'D' THEN 1.0\<newline>'',
     ''        WHEN e.grade = 'F' THEN 0.0\<newline>'',
     ''      END) >= ?\<newline>'',
     ''      ORDER BY gpa DESC, total_credits DESC\<newline>'',
     ''    '']"

definition student_performance_query :: "qsval option \<Rightarrow> string" where
  "student_performance_query grade =
     student_performance_query_head @ (if truthy grade then ''AND s.grade = ?'' else '''') @ student_performance_query_tail"

definition students_in_courses_query :: string where
  "students_in_courses_query = concat
    [''\<newline>'',
     ''      SELECT DISTINCT\<newline>'',
     ''        s.student_id,\<newline>'',
     ''        s.first_name,\<newline>'',
     ''        s.last_name,\<newline>'',
     ''        s.email,\<newline>'',
     ''        s.grade,\<newline>'',
     ''        (\<newline>'',
     ''          SELECT COUNT(*)\<newline>'',
     ''          FROM enrollments e2\<newline>'',
     ''          WHERE e2.student_id = s.student_id\<newline>'',
     ''            AND e2.course_id IN (?)\<newline>'',
     ''        ) as matching_course_count\<newline>'',
     ''      FROM students s\<newline>'',
     ''      WHERE s.student_id IN (\<newline>'',
     ''        SELECT DISTINCT student_id\<newline>'',
     ''        FROM enrollments\<newline>'',
     ''        WHERE course_id IN (?)\<newline>'',
     ''      )\<newline>'',
     ''      ORDER BY matching_course_count DESC, s.last_name\<newline>'',
     ''    '']"

definition course_details_query :: string where
  "course_details_query = concat
    [''\<newline>'',
     ''      SELECT \<newline>'',
     ''        c.course_id,\<newline>'',
     ''        c.course_name,\<newline>'',
     ''        c.credits,\<newline>'',
     ''        c.department,\<newline>'',
     ''        COUNT(DISTINCT e.student_id) as total_students,\<newline>'',
     ''        COUNT(DISTINCT s.grade) as grade_levels_represented,\<newline>'',
     ''        -- Grade distribution\<newline>'',
     ''        SUM(CASE WHEN e.grade = 'A' THEN 1 ELSE 0 END) as count_A,\<newline>'',
     ''        SUM(CASE WHEN e.grade = 'B' THEN 1 ELSE 0 END) as count_B,\<newline>'',
     ''        SUM(CASE WHEN e.grade = 'C' THEN 1 ELSE 0 END) as count_C,\<newline>'',
     ''        SUM(CASE WHEN e.grade = 'D' THEN 1 ELSE 0 END) as count_D,\<newline>'',
     ''        SUM(CASE WHEN e.grade = 'F' THEN 1 ELSE 0 END) as count_F,\<newline>'',
     ''        -- Calculate percentages\<newline>'',
     ''        ROUND(SUM(CASE WHEN e.grade = 'A' THEN 1 ELSE 0 END) * 100.0 / COUNT(*), 2) as percent_A,\<newline>'',
     ''        ROUND(SUM(CASE WHEN e.grade = 'B' THEN 1 ELSE 0 END) * 100.0 / COUNT(*), 2) as percent_B,\<newline>'',
     ''        -- Average GPA\<newline>'',
     ''        ROUND(AVG(CASE \<newline>'',
     ''          WHEN e.grade = 'A' THEN 4.0\<newline>'',
     ''          WHEN e.grade = 'B' THEN 3.0\<newline>'',
     ''          WHEN e.grade = 'C' THEN 2.0\<newline>'',
     ''          WHEN e.grade = 'D' THEN 1.0\<newline>'',
     ''          WHEN e.grade = 'F' THEN 0.0\<newline>'',
     ''        END), 2) as average_gpa,\<newline>'',
     ''        -- Latest enrollment date\<newline>'',
     ''        MAX(e.enrollment_date) as latest_enrollment,\<newline>'',
     ''        -- Top performing student\<newline>'',
     ''        (\<newline>'',
     ''          SELECT CONCAT(s2.first_name, ' ', s2.last_name)\<newline>'',
     ''          FROM students s2\<newline>'',
     ''          INNER JOIN enrollments e2 ON s2.student_id = e2.student_id\<newline>'',
     ''          WHERE e2.course_id = c.course_id\<newline>'',
     ''            AND e2.grade = 'A'\<newline>'',
     ''          LIMIT 1\<newline>'',
     ''        ) as top_student_example\<newline>'',
     ''      FROM courses c\<newline>'',
     ''      LEFT JOIN enrollments e ON c.course_id = e.course_id\<newline>'',
     ''      LEFT JOIN students s ON e.student_id = s.student_id\<newline>'',
     ''      WHERE c.course_id = ?\<newline>'',
     ''      GROUP BY c.course_id, c.course_name, c.credits, c.department\<newline>'',
     ''    '']"

definition top_performers_query :: string where
  "top_performers_query = concat
    [''\<newline>'',
     ''      SELECT \<newline>'',
     ''        s.student_id,\<newline>'',
     ''        s.first_name,\<newline>'',
     ''        s.last_name,\<newline>'',
     ''        s.email,\<newline>'',
     ''        s.grade as student_grade,\<newline>'',
     ''        COUNT(DISTINCT e.course_id) as courses_completed,\<newline>'',
     ''        SUM(c.credits) as total_credits_earned,\<newline>'',
     ''        -- Calculate weighted GPA\<newline>'',
     ''        ROUND(\<newline>'',
     ''          SUM(\<newline>'',
     ''            CASE \<newline>'',
     ''              WHEN e.grade = 'A' THEN 4.0 * c.credits\<newline>'',
     ''              WHEN e.grade = 'B' THEN 3.0 * c.credits\<newline>'',
     ''              WHEN e.grade = 'C' THEN 2.0 * c.credits\<newline>'',
     ''              WHEN e.grade = 'D' THEN 1.0 * c.credits\<newline>'',
     ''              WHEN e.grade = 'F' THEN 0.0 * c.credits\<newline>'',
     ''            END\<newline>'',
     ''          ) / SUM(c.credits),\<newline>'',
     ''          2\<newline>'',
     ''        ) as weighted_gpa,\<newline>'',
     ''        -- Count of A grades\<newline>'',
     ''        SUM(CASE WHEN e.grade = 'A' THEN 1 ELSE 0 END) as a_count,\<newline>'',
     ''        -- Performance rating\<newline>'',
     ''        CASE \<newline>'',
     ''          WHEN AVG(CASE \<newline>'',
     ''            WHEN e.grade = 'A' THEN 4.0\<newline>'',
     ''            WHEN e.grade = 'B' THEN 3.0\<newline>'',
     ''            WHEN e.grade = 'C' THEN 2.0\<newline>'',
     ''            WHEN e.grade = 'D' THEN 1.0\<newline>'',
     ''            WHEN e.grade = 'F' THEN 0.0\<newline>'',
     ''          END) >= 3.8 THEN 'Outstanding'\<newline>'',
     ''          WHEN AVG(CASE \<newline>'',
     ''            WHEN e.grade = 'A' THEN 4.0\<newline>'',
     ''            WHEN e.grade = 'B' THEN 3.0\<newline>'',
     ''            WHEN e.grade = 'C' THEN 2.0\<newline>'',
     ''            WHEN e.grade = 'D' THEN 1.0\<newline>'',
     ''            WHEN e.grade = 'F' THEN 0.0\<newline>'',
     ''          END) >= 3.5 THEN 'Excellent'\<newline>'',
     ''          WHEN AVG(CASE \<newline>'',
     ''            WHEN e.grade = 'A' THEN 4.0\<newline>'',
     ''            WHEN e.grade = 'B' THEN 3.0\<newline>'',
     ''            WHEN e.grade = 'C' THEN 2.0\<newline>'',
     ''            WHEN e.grade = 'D' THEN 1.0\<newline>'',
     ''            WHEN e.grade = 'F' THEN 0.0\<newline>'',
     ''          END) >= 3.0 THEN 'Good'\<newline>'',
     ''          ELSE 'Satisfactory'\<newline>'',
     ''        END as performance_rating\<newline>'',
     ''      FROM students s\<newline>'',
     ''      INNER JOIN enrollments e ON s.student_id = e.student_id\<newline>'',
     ''      INNER JOIN courses c ON e.course_id = c.course_id\<newline>'',
     ''      GROUP BY s.student_id, s.first_name, s.last_name, s.email, s.grade\<newline>'',
     ''      HAVING \<newline>'',
     ''        COUNT(DISTINCT e.course_id) >= ?\<newline>'',
     ''        AND ROUND(\<newline>'',
     ''          SUM(\<newline>'',
     ''            CASE \<newline>'',
     ''              WHEN e.grade = 'A' THEN 4.0 * c.credits\<newline>'',
     ''              WHEN e.grade = 'B' THEN 3.0 * c.credits\<newline>'',
     ''              WHEN e.grade = 'C' THEN 2.0 * c.credits\<newline>'',
     ''              WHEN e.grade = 'D' THEN 1.0 * c.credits\<newline>'',
     ''              WHEN e.grade = 'F' THEN 0.0 * c.credits\<newline>'',
     ''            END\<newline>'',
     ''          ) / SUM(c.credits),\<newline>'',
     ''          2\<newline>'',
     ''        ) >= ?\<newline>'',
     ''      ORDER BY weighted_gpa DESC, courses_completed DESC\<newline>'',
     ''      LIMIT 20\<newline>'',
     ''    '']"

definition departments_query :: string where
  "departments_query = concat
    [''\<newline>'',
     ''      SELECT \<newline>'',
     ''        c.department,\<newline>'',
     ''        COUNT(DISTINCT c.course_id) as total_courses,\<newline>'',
     ''        COUNT(DISTINCT e.student_id) as total_students,\<newline>'',
     ''        SUM(c.credits) as total_credits_offered,\<newline>'',
     ''        AVG(c.credits) as avg_credits_per_course,\<newline>'',
     ''        -- Enrollment statistics\<newline>'',
     ''        COUNT(e.enrollment_id) as total_enrollments,\<newline>'',
     ''        ROUND(COUNT(e.enrollment_id) * 1.0 / COUNT(DISTINCT c.course_id), 2) as avg_enrollments_per_course,\<newline>'',
     ''        -- Performance metrics\<newline>'',
     ''        ROUND(AVG(CASE \<newline>'',
     ''          WHEN e.grade = 'A' THEN 4.0\<newline>'',
     ''          WHEN e.grade = 'B' THEN 3.0\<newline>'',
     ''          WHEN e.grade = 'C' THEN 2.0\<newline>'',
     ''          WHEN e.grade = 'D' THEN 1.0\<newline>'',
     ''          WHEN e.grade = 'F' THEN 0.0\<newline>'',
     ''        END), 2) as department_avg_gpa,\<newline>'',
     ''        -- Grade distribution\<newline>'',
     ''        CONCAT(\<newline>'',
     ''          'A:', SUM(CASE WHEN e.grade = 'A' THEN 1 ELSE 0 END), ' ',\<newline>'',
     ''          'B:', SUM(CASE WHEN e.grade = 'B' THEN 1 ELSE 0 END), ' ',\<newline>'',
     ''          'C:', SUM(CASE WHEN e.grade = 'C' THEN 1 ELSE 0 END)\<newline>'',
     ''        ) as grade_distribution,\<newline>'',
     ''        -- Success rate (C or better)\<newline>'',
     ''        ROUND(\<newline>'',
     ''          SUM(CASE WHEN e.grade IN ('A', 'B', 'C') THEN 1 ELSE 0 END) * 100.0 / COUNT(e.enrollment_id),\<newline>'',
     ''          2\<newline>'',
     ''        ) as success_rate_percent\<newline>'',
     ''      FROM courses c\<newline>'',
     ''      LEFT JOIN enrollments e ON c.course_id = e.course_id\<newline>'',
     ''      GROUP BY c.department\<newline>'',
     ''      HAVING COUNT(e.enrollment_id) > 0\<newline>'',
     ''      ORDER BY total_enrollments DESC, department_avg_gpa DESC\<newline>'',
     ''    '']"

section \<open>Rows, responses and the execution collaborator\<close>

text \<open>
  A value of a result column and a result row (column names with their values, in the
  order of the select list). Dates are day numbers.
\<close>

datatype sqlval = SqlNull | SqlInt int | SqlDec rat | SqlStr string | SqlDate int

type_synonym row = "(string \<times> sqlval) list"

text \<open>The JavaScript values bound as parameters and placed in response bodies.\<close>

datatype json =
    JUndefined
  | JBool bool
  | JNumber jsnum
  | JString string
  | JArray "json list"
  | JObject "(string \<times> json) list"
  | JRow row

fun json_of_qs :: "qsval \<Rightarrow> json" where
  "json_of_qs (QStr s) = JString s"
| "json_of_qs (QArr xs) = JArray (map json_of_qs xs)"
| "json_of_qs (QObj kvs) = JObject (map (\<lambda>(k, v). (k, json_of_qs v)) kvs)"

fun json_of_value :: "qsval option \<Rightarrow> json" where
  "json_of_value None = JUndefined"
| "json_of_value (Some v) = json_of_qs v"

text \<open>
  \<^verbatim>\<open>pool.query(query, params)\<close>: the query text and the bound values go to the
  store, which answers with rows or throws. A call without parameters has the empty list.
\<close>

type_synonym db_call = "string \<times> json list"

type_synonym pool = "db_call \<Rightarrow> js_error + row list"

text \<open>
  What a handler does: the calls it made to the store, in order, and the response it sent
  (status and JSON body, fields in the order written). Logging is not part of the model.
\<close>

record result =
  calls :: "db_call list"
  status :: nat
  body :: "(string \<times> json) list"

definition res_json :: "db_call list \<Rightarrow> (string \<times> json) list \<Rightarrow> result" where
  "res_json cs b = \<lparr>calls = cs, status = 200, body = b\<rparr>"

definition res_status_json :: "db_call list \<Rightarrow> nat \<Rightarrow> (string \<times> json) list \<Rightarrow> result" where
  "res_status_json cs code b = \<lparr>calls = cs, status = code, body = b\<rparr>"

definition rows_length :: "row list \<Rightarrow> json" where
  "rows_length rows = JNumber (Num (of_nat (length rows)))"

definition failure :: "string \<Rightarrow> (string \<times> json) list" where
  "failure msg = [(''success'', JBool False), (''error'', JString msg)]"

section \<open>The ten request handlers\<close>

definition students_by_grade :: "pool \<Rightarrow> string \<Rightarrow> result" where
  "students_by_grade pool_query grade =
     (let query = students_by_grade_query; params = [JString grade] in
      case pool_query (query, params) of
        Inr rows \<Rightarrow>
          res_json [(query, params)]
            [(''success'', JBool True), (''count'', rows_length rows),
             (''data'', JArray (map JRow rows))]
      | Inl err \<Rightarrow>
          res_status_json [(query, params)] 500 (failure ''Failed to fetch students''))"

definition student_enrollments :: "pool \<Rightarrow> string \<Rightarrow> result" where
  "student_enrollments pool_query studentId =
     (let query = student_enrollments_query; params = [JString studentId] in
      case pool_query (query, params) of
        Inr rows \<Rightarrow>
          res_json [(query, params)]
            [(''success'', JBool True), (''count'', rows_length rows),
             (''data'', JArray (map JRow rows))]
      | Inl err \<Rightarrow>
          res_status_json [(query, params)] 500 (failure ''Failed to fetch enrollments''))"

definition all_with_enrollments :: "pool \<Rightarrow> result" where
  "all_with_enrollments pool_query =
     (let query = all_with_enrollments_query in
      case pool_query (query, []) of
        Inr rows \<Rightarrow>
          res_json [(query, [])]
            [(''success'', JBool True), (''count'', rows_length rows),
             (''data'', JArray (map JRow rows))]
      | Inl err \<Rightarrow>
          res_status_json [(query, [])] 500 (failure ''Failed to fetch data''))"

definition students_per_grade :: "pool \<Rightarrow> result" where
  "students_per_grade pool_query =
     (let query = students_per_grade_query in
      case pool_query (query, []) of
        Inr rows \<Rightarrow>
          res_json [(query, [])]
            [(''success'', JBool True), (''data'', JArray (map JRow rows))]
      | Inl err \<Rightarrow>
          res_status_json [(query, [])] 500 (failure ''Failed to calculate analytics''))"

text \<open>
  Popular courses: \<^verbatim>\<open>parseInt(minEnrollments)\<close> on a path parameter, a string, whose
  conversion cannot throw.
\<close>

definition popular_courses :: "pool \<Rightarrow> string \<Rightarrow> result" where
  "popular_courses pool_query minEnrollments =
     (let query = popular_courses_query;
          params = [JNumber (parseInt_text minEnrollments)] in
      case pool_query (query, params) of
        Inr rows \<Rightarrow>
          res_json [(query, params)]
            [(''success'', JBool True), (''count'', rows_length rows),
             (''data'', JArray (map JRow rows))]
      | Inl err \<Rightarrow>
          res_status_json [(query, params)] 500 (failure ''Failed to fetch popular courses''))"

text \<open>
  Student performance: \<^verbatim>\<open>minGPA = parseFloat(req.query.minGPA) || 0\<close>, the grade
  as given. The log line then interpolates \<^verbatim>\<open>${grade || 'all'}\<close>, which converts a
  truthy grade to a string. Either conversion can throw; the \<^verbatim>\<open>catch\<close> then answers
  500 before any call to the store. The parameter list is
  \<^verbatim>\<open>grade ? [grade, minGPA] : [minGPA]\<close> and the response echoes
  \<^verbatim>\<open>grade || 'all'\<close>.
\<close>

definition student_performance :: "pool \<Rightarrow> qsval option \<Rightarrow> qsval option \<Rightarrow> result" where
  "student_performance pool_query q_minGPA q_grade =
     (case parseFloat q_minGPA of
        Inl err \<Rightarrow> res_status_json [] 500 (failure ''Failed to fetch performance data'')
      | Inr parsed \<Rightarrow>
          (let minGPA = js_or parsed (Num 0);
               grade = q_grade in
           case (if truthy grade then ToString grade else Inr ''all'') of
             Inl err \<Rightarrow> res_status_json [] 500 (failure ''Failed to fetch performance data'')
           | Inr logged \<Rightarrow>
               (let query = student_performance_query grade;
                    params = (if truthy grade then [json_of_value grade, JNumber minGPA]
                              else [JNumber minGPA]) in
                case pool_query (query, params) of
                  Inr rows \<Rightarrow>
                    res_json [(query, params)]
                      [(''success'', JBool True),
                       (''filters'',
                          JObject [(''minGPA'', JNumber minGPA),
                                   (''grade'', if truthy grade then json_of_value grade
                                                else JString ''all'')]),
                       (''count'', rows_length rows),
                       (''data'', JArray (map JRow rows))]
                | Inl err \<Rightarrow>
                    res_status_json [(query, params)] 500
                      (failure ''Failed to fetch performance data''))))"

text \<open>
  Students in courses: \<^verbatim>\<open>req.query.courseIds?.split(',') || []\<close>. An absent value
  gives the empty list; a string is split at commas; an array or an object has no callable
  \<^verbatim>\<open>split\<close>, the call throws and the handler's \<^verbatim>\<open>catch\<close> answers 500.
\<close>

fun split_courseIds :: "qsval option \<Rightarrow> js_error + string list" where
  "split_courseIds None = Inr []"
| "split_courseIds (Some (QStr s)) = Inr (split_on (CHR '','') s)"
| "split_courseIds (Some (QArr xs)) = Inl (TypeError ''split is not a function'')"
| "split_courseIds (Some (QObj kvs)) = Inl (TypeError ''split is not a function'')"

definition students_in_courses :: "pool \<Rightarrow> qsval option \<Rightarrow> result" where
  "students_in_courses pool_query q_courseIds =
     (case split_courseIds q_courseIds of
        Inl err \<Rightarrow> res_status_json [] 500 (failure ''Failed to fetch students'')
      | Inr courseIds \<Rightarrow>
          if length courseIds = 0 then
            res_status_json [] 400
              (failure ''Please provide courseIds as comma-separated values'')
          else
            (let query = students_in_courses_query;
                 ids = JArray (map JString courseIds);
                 params = [ids, ids] in
             case pool_query (query, params) of
               Inr rows \<Rightarrow>
                 res_json [(query, params)]
                   [(''success'', JBool True), (''courseIds'', ids),
                    (''count'', rows_length rows),
                    (''data'', JArray (map JRow rows))]
             | Inl err \<Rightarrow>
                 res_status_json [(query, params)] 500 (failure ''Failed to fetch students'')))"

text \<open>Course details: no row is 404, otherwise the first row alone is the data.\<close>

definition course_details :: "pool \<Rightarrow> string \<Rightarrow> result" where
  "course_details pool_query courseId =
     (let query = course_details_query; params = [JString courseId] in
      case pool_query (query, params) of
        Inr rows \<Rightarrow>
          (case rows of
             [] \<Rightarrow> res_status_json [(query, params)] 404 (failure ''Course not found'')
           | r # rs \<Rightarrow>
               res_json [(query, params)] [(''success'', JBool True), (''data'', JRow r)])
      | Inl err \<Rightarrow>
          res_status_json [(query, params)] 500 (failure ''Failed to fetch course analytics''))"

text \<open>
  Top performers: \<^verbatim>\<open>parseInt(req.query.minCourses) || 3\<close> and
  \<^verbatim>\<open>parseFloat(req.query.minGPA) || 3.5\<close>. Either parse can throw on its argument;
  the \<^verbatim>\<open>catch\<close> then answers 500 before any call to the store.
\<close>

definition top_performers :: "pool \<Rightarrow> qsval option \<Rightarrow> qsval option \<Rightarrow> result" where
  "top_performers pool_query q_minCourses q_minGPA =
     (case parseInt q_minCourses of
        Inl err \<Rightarrow> res_status_json [] 500 (failure ''Failed to fetch top performers'')
      | Inr parsedCourses \<Rightarrow>
          (case parseFloat q_minGPA of
             Inl err \<Rightarrow> res_status_json [] 500 (failure ''Failed to fetch top performers'')
           | Inr parsedGPA \<Rightarrow>
               (let minCourses = js_or parsedCourses (Num 3);
                    minGPA = js_or parsedGPA (Num (7 / 2));
                    query = top_performers_query;
                    params = [JNumber minCourses, JNumber minGPA] in
                case pool_query (query, params) of
                  Inr rows \<Rightarrow>
                    res_json [(query, params)]
                      [(''success'', JBool True),
                       (''criteria'',
                          JObject [(''minCourses'', JNumber minCourses),
                                   (''minGPA'', JNumber minGPA)]),
                       (''count'', rows_length rows),
                       (''data'', JArray (map JRow rows))]
                | Inl err \<Rightarrow>
                    res_status_json [(query, params)] 500
                      (failure ''Failed to fetch top performers''))))"

definition departments :: "pool \<Rightarrow> result" where
  "departments pool_query =
     (let query = departments_query in
      case pool_query (query, []) of
        Inr rows \<Rightarrow>
          res_json [(query, [])]
            [(''success'', JBool True), (''count'', rows_length rows),
             (''data'', JArray (map JRow rows))]
      | Inl err \<Rightarrow>
          res_status_json [(query, [])] 500 (failure ''Failed to fetch department analytics''))"

subsection \<open>Requests to the ten report routes\<close>

datatype endpoint =
    EStudentsByGrade | EStudentEnrollments | EAllWithEnrollments | EStudentsPerGrade
  | EPopularCourses | EStudentPerformance | EStudentsInCourses | ECourseDetails
  | ETopPerformers | EDepartments

text \<open>A request: the route with its path parameter or its query-string values.\<close>

datatype request =
    StudentsByGrade string
  | StudentEnrollments string
  | AllWithEnrollments
  | StudentsPerGrade
  | PopularCourses string
  | StudentPerformance "qsval option" "qsval option"
  | StudentsInCourses "qsval option"
  | CourseDetails string
  | TopPerformers "qsval option" "qsval option"
  | Departments

fun endpoint_of :: "request \<Rightarrow> endpoint" where
  "endpoint_of (StudentsByGrade g) = EStudentsByGrade"
| "endpoint_of (StudentEnrollments i) = EStudentEnrollments"
| "endpoint_of AllWithEnrollments = EAllWithEnrollments"
| "endpoint_of StudentsPerGrade = EStudentsPerGrade"
| "endpoint_of (PopularCourses m) = EPopularCourses"
| "endpoint_of (StudentPerformance m g) = EStudentPerformance"
| "endpoint_of (StudentsInCourses c) = EStudentsInCourses"
| "endpoint_of (CourseDetails c) = ECourseDetails"
| "endpoint_of (TopPerformers c g) = ETopPerformers"
| "endpoint_of Departments = EDepartments"

fun handle :: "pool \<Rightarrow> request \<Rightarrow> result" where
  "handle p (StudentsByGrade g) = students_by_grade p g"
| "handle p (StudentEnrollments i) = student_enrollments p i"
| "handle p AllWithEnrollments = all_with_enrollments p"
| "handle p StudentsPerGrade = students_per_grade p"
| "handle p (PopularCourses m) = popular_courses p m"
| "handle p (StudentPerformance m g) = student_performance p m g"
| "handle p (StudentsInCourses c) = students_in_courses p c"
| "handle p (CourseDetails c) = course_details p c"
| "handle p (TopPerformers c g) = top_performers p c g"
| "handle p Departments = departments p"

text \<open>The grade value of a student-performance request; no other request has one.\<close>

fun grade_of :: "request \<Rightarrow> qsval option" where
  "grade_of (StudentPerformance m g) = g"
| "grade_of r = None"

text \<open>The query texts a request sends to the store.\<close>

definition sent_queries :: "pool \<Rightarrow> request \<Rightarrow> string list" where
  "sent_queries p r = map fst (calls (handle p r))"

text \<open>The number of placeholders of a query text.\<close>

definition placeholders :: "string \<Rightarrow> nat" where
  "placeholders q = count_list q (CHR ''?'')"

section \<open>The tables and the meaning of the queries\<close>

text \<open>
  The three tables of the schema, with the columns the queries read. An enrollment's
  grade is one of the five letters or \<^verbatim>\<open>NULL\<close> (in progress), as the schema documents.
\<close>

datatype letter = A | B | C | D | F

record student =
  s_student_id :: int
  s_first_name :: string
  s_last_name :: string
  s_email :: string
  s_grade :: int
  s_enrollment_date :: int

record course =
  c_course_id :: int
  c_course_name :: string
  c_department :: string
  c_credits :: int

record enrollment =
  e_enrollment_id :: int
  e_student_id :: int
  e_course_id :: int
  e_enrollment_date :: int
  e_grade :: "letter option"

record database =
  students :: "student list"
  courses :: "course list"
  enrollments :: "enrollment list"

subsection \<open>Joins, grouping and aggregates\<close>

definition inner_join :: "('a \<Rightarrow> 'b \<Rightarrow> bool) \<Rightarrow> 'a list \<Rightarrow> 'b list \<Rightarrow> ('a \<times> 'b) list" where
  "inner_join on xs ys = concat (map (\<lambda>x. map (Pair x) (filter (on x) ys)) xs)"

text \<open>A left row without a partner is kept once, with \<^verbatim>\<open>NULL\<close> on the right.\<close>

definition left_rows :: "('a \<Rightarrow> 'b \<Rightarrow> bool) \<Rightarrow> 'b list \<Rightarrow> 'a \<Rightarrow> ('a \<times> 'b option) list" where
  "left_rows on ys x =
     (case filter (on x) ys of [] \<Rightarrow> [(x, None)] | m # ms \<Rightarrow> map (\<lambda>y. (x, Some y)) (m # ms))"

definition left_join :: "('a \<Rightarrow> 'b \<Rightarrow> bool) \<Rightarrow> 'a list \<Rightarrow> 'b list \<Rightarrow> ('a \<times> 'b option) list" where
  "left_join on xs ys = concat (map (left_rows on ys) xs)"

text \<open>One group per distinct key, holding the rows of that key.\<close>

definition group_by :: "('r \<Rightarrow> 'k) \<Rightarrow> 'r list \<Rightarrow> ('k \<times> 'r list) list" where
  "group_by key rs = map (\<lambda>k. (k, filter (\<lambda>r. key r = k) rs)) (remdups (map key rs))"

fun non_null :: "'a option list \<Rightarrow> 'a list" where
  "non_null [] = []"
| "non_null (None # vs) = non_null vs"
| "non_null (Some v # vs) = v # non_null vs"

text \<open>Aggregates skip \<^verbatim>\<open>NULL\<close>; over no value at all, SUM, AVG and MAX are \<^verbatim>\<open>NULL\<close>.\<close>

definition sql_count :: "'a option list \<Rightarrow> nat" where
  "sql_count vs = length (non_null vs)"

definition sql_count_distinct :: "'a option list \<Rightarrow> nat" where
  "sql_count_distinct vs = length (remdups (non_null vs))"

definition sql_sum :: "rat option list \<Rightarrow> rat option" where
  "sql_sum vs = (case non_null vs of [] \<Rightarrow> None | x # xs \<Rightarrow> Some (sum_list (x # xs)))"

definition sql_avg :: "rat option list \<Rightarrow> rat option" where
  "sql_avg vs =
     (case non_null vs of [] \<Rightarrow> None
      | x # xs \<Rightarrow> Some (sum_list (x # xs) / of_nat (length (x # xs))))"

definition sql_max :: "int option list \<Rightarrow> int option" where
  "sql_max vs = (case non_null vs of [] \<Rightarrow> None | x # xs \<Rightarrow> Some (fold max xs x))"

text \<open>Division: \<^verbatim>\<open>NULL\<close> when an operand is \<^verbatim>\<open>NULL\<close> or the divisor is zero.\<close>

fun sql_div :: "rat option \<Rightarrow> rat option \<Rightarrow> rat option" where
  "sql_div (Some x) (Some y) = (if y = 0 then None else Some (x / y))"
| "sql_div a b = None"

text \<open>
  \<^verbatim>\<open>ROUND(x, 2)\<close> on an exact value: to two decimals, halves away from zero. The
  arithmetic of the queries is exact decimal arithmetic, modelled by rationals; the scale
  at which the store keeps a quotient before it is rounded is left out.
\<close>

definition sql_round2 :: "rat \<Rightarrow> rat" where
  "sql_round2 x =
     (if 0 \<le> x then of_int \<lfloor>x * 100 + 1 / 2\<rfloor> / 100
      else - (of_int \<lfloor>- x * 100 + 1 / 2\<rfloor> / 100))"

definition sql_num :: "rat option \<Rightarrow> sqlval" where
  "sql_num v = (case v of None \<Rightarrow> SqlNull | Some x \<Rightarrow> SqlDec x)"

subsection \<open>The grade-point CASE expressions\<close>

text \<open>
  The CASE of the popular-courses query: four \<^verbatim>\<open>WHEN\<close> branches and
  \<^verbatim>\<open>ELSE 0.0\<close>. A comparison with \<^verbatim>\<open>NULL\<close> is not true, so a \<^verbatim>\<open>NULL\<close>
  grade reaches the \<^verbatim>\<open>ELSE\<close>.
\<close>

fun popular_courses_case :: "letter option \<Rightarrow> rat option" where
  "popular_courses_case (Some A) = Some 4"
| "popular_courses_case (Some B) = Some 3"
| "popular_courses_case (Some C) = Some 2"
| "popular_courses_case (Some D) = Some 1"
| "popular_courses_case g = Some 0"

text \<open>
  The CASE of the other queries: five \<^verbatim>\<open>WHEN\<close> branches and no \<^verbatim>\<open>ELSE\<close>, so a
  \<^verbatim>\<open>NULL\<close> grade gives \<^verbatim>\<open>NULL\<close>.
\<close>

fun gpa_case :: "letter option \<Rightarrow> rat option" where
  "gpa_case (Some A) = Some 4"
| "gpa_case (Some B) = Some 3"
| "gpa_case (Some C) = Some 2"
| "gpa_case (Some D) = Some 1"
| "gpa_case (Some F) = Some 0"
| "gpa_case None = None"

text \<open>The GPA aggregates of the five queries, over the grades of the rows of a group.\<close>

definition popular_courses_average_gpa :: "letter option list \<Rightarrow> rat option" where
  "popular_courses_average_gpa grades = sql_avg (map popular_courses_case grades)"

definition student_performance_gpa :: "letter option list \<Rightarrow> rat option" where
  "student_performance_gpa grades = sql_avg (map gpa_case grades)"

definition course_details_average_gpa :: "letter option list \<Rightarrow> rat option" where
  "course_details_average_gpa grades = map_option sql_round2 (sql_avg (map gpa_case grades))"

definition departments_avg_gpa :: "letter option list \<Rightarrow> rat option" where
  "departments_avg_gpa grades = map_option sql_round2 (sql_avg (map gpa_case grades))"

text \<open>
  The weighted GPA of top performers, over the (grade, credits) pairs of a group:
  \<^verbatim>\<open>ROUND(SUM(CASE ... THEN 4.0 * c.credits ... END) / SUM(c.credits), 2)\<close>.
\<close>

definition weighted_case :: "letter option \<times> int \<Rightarrow> rat option" where
  "weighted_case gc = (case gc of (g, credits) \<Rightarrow> map_option (\<lambda>p. p * of_int credits) (gpa_case g))"

definition weighted_gpa :: "(letter option \<times> int) list \<Rightarrow> rat option" where
  "weighted_gpa rs =
     map_option sql_round2
       (sql_div (sql_sum (map weighted_case rs))
                (sql_sum (map (\<lambda>gc. Some (of_int (snd gc))) rs)))"

text \<open>\<^verbatim>\<open>SUM(CASE WHEN e.grade = 'A' THEN 1 ELSE 0 END)\<close> and its siblings.\<close>

definition count_letter :: "letter \<Rightarrow> letter option list \<Rightarrow> rat option" where
  "count_letter l grades = sql_sum (map (\<lambda>g. Some (if g = Some l then 1 else 0)) grades)"

subsection \<open>All students with enrollments\<close>

text \<open>
  Students left-joined with enrollments and then courses, grouped by the student columns;
  \<^verbatim>\<open>GROUP_CONCAT\<close> joins the course names that are not \<^verbatim>\<open>NULL\<close> and is \<^verbatim>\<open>NULL\<close>
  without any (its length limit is a setting of the store and is left out). The order is by
  the collation weight of the last name, a parameter.
\<close>

type_synonym student_key = "int \<times> string \<times> string \<times> int"

definition awe_joined :: "database \<Rightarrow> ((student \<times> enrollment option) \<times> course option) list" where
  "awe_joined db =
     left_join (\<lambda>se c. case snd se of None \<Rightarrow> False | Some e \<Rightarrow> e_course_id e = c_course_id c)
       (left_join (\<lambda>s e. s_student_id s = e_student_id e) (students db) (enrollments db))
       (courses db)"

definition awe_key :: "student \<Rightarrow> student_key" where
  "awe_key s = (s_student_id s, s_first_name s, s_last_name s, s_grade s)"

definition group_concat :: "string \<Rightarrow> string option list \<Rightarrow> sqlval" where
  "group_concat sep vs = (case non_null vs of [] \<Rightarrow> SqlNull | x # xs \<Rightarrow> SqlStr (join sep (x # xs)))"

definition awe_row ::
  "student_key \<times> ((student \<times> enrollment option) \<times> course option) list \<Rightarrow> row" where
  "awe_row g =
     (case g of ((sid, fname, lname, grade), rs) \<Rightarrow>
        [(''student_id'', SqlInt sid),
         (''first_name'', SqlStr fname),
         (''last_name'', SqlStr lname),
         (''grade'', SqlInt grade),
         (''total_enrollments'',
            SqlInt (int (sql_count (map (\<lambda>r. map_option e_enrollment_id (snd (fst r))) rs)))),
         (''courses'', group_concat '', '' (map (\<lambda>r. map_option c_course_name (snd r)) rs))])"

definition all_with_enrollments_rows :: "(string \<Rightarrow> 'w::linorder) \<Rightarrow> database \<Rightarrow> row list" where
  "all_with_enrollments_rows weight db =
     map awe_row
       (sort_key (\<lambda>g. weight (fst (snd (snd (fst g)))))
          (group_by (\<lambda>r. awe_key (fst (fst r))) (awe_joined db)))"

subsection \<open>Course details\<close>

text \<open>
  Courses left-joined with enrollments and then students, restricted to the courses whose
  id equals the bound value, grouped by the course columns. How the store compares an
  integer column with the bound value is a parameter, \<open>matches\<close>.
\<close>

type_synonym course_key = "int \<times> string \<times> int \<times> string"

definition cd_joined :: "database \<Rightarrow> ((course \<times> enrollment option) \<times> student option) list" where
  "cd_joined db =
     left_join (\<lambda>ce s. case snd ce of None \<Rightarrow> False | Some e \<Rightarrow> e_student_id e = s_student_id s)
       (left_join (\<lambda>c e. c_course_id c = e_course_id e) (courses db) (enrollments db))
       (students db)"

definition cd_key :: "course \<Rightarrow> course_key" where
  "cd_key c = (c_course_id c, c_course_name c, c_credits c, c_department c)"

text \<open>
  The subquery for the example student: students joined with their enrollments, kept
  where the course is this one and the grade is A, first row only.
\<close>

definition top_student_example :: "database \<Rightarrow> int \<Rightarrow> sqlval" where
  "top_student_example db cid =
     (case filter (\<lambda>se. e_course_id (snd se) = cid \<and> e_grade (snd se) = Some A)
             (inner_join (\<lambda>s e. s_student_id s = e_student_id e) (students db) (enrollments db)) of
        [] \<Rightarrow> SqlNull
      | se # rest \<Rightarrow> SqlStr (s_first_name (fst se) @ '' '' @ s_last_name (fst se)))"

definition cd_percent :: "letter \<Rightarrow> letter option list \<Rightarrow> rat option" where
  "cd_percent l grades =
     map_option sql_round2
       (sql_div (map_option (\<lambda>n. n * 100) (count_letter l grades))
                (Some (of_nat (length grades))))"

definition cd_row ::
  "database \<Rightarrow> course_key \<times> ((course \<times> enrollment option) \<times> student option) list \<Rightarrow> row" where
  "cd_row db g =
     (case g of ((cid, name, credits, department), rs) \<Rightarrow>
        (let grades = map (\<lambda>r. case snd (fst r) of None \<Rightarrow> None | Some e \<Rightarrow> e_grade e) rs in
         [(''course_id'', SqlInt cid),
          (''course_name'', SqlStr name),
          (''credits'', SqlInt credits),
          (''department'', SqlStr department),
          (''total_students'',
             SqlInt (int (sql_count_distinct (map (\<lambda>r. map_option e_student_id (snd (fst r))) rs)))),
          (''grade_levels_represented'',
             SqlInt (int (sql_count_distinct (map (\<lambda>r. map_option s_grade (snd r)) rs)))),
          (''count_A'', sql_num (count_letter A grades)),
          (''count_B'', sql_num (count_letter B grades)),
          (''count_C'', sql_num (count_letter C grades)),
          (''count_D'', sql_num (count_letter D grades)),
          (''count_F'', sql_num (count_letter F grades)),
          (''percent_A'', sql_num (cd_percent A grades)),
          (''percent_B'', sql_num (cd_percent B grades)),
          (''average_gpa'', sql_num (course_details_average_gpa grades)),
          (''latest_enrollment'',
             (case sql_max (map (\<lambda>r. map_option e_enrollment_date (snd (fst r))) rs) of
                None \<Rightarrow> SqlNull | Some d \<Rightarrow> SqlDate d)),
          (''top_student_example'', top_student_example db cid)]))"

definition course_details_rows :: "(int \<Rightarrow> json \<Rightarrow> bool) \<Rightarrow> database \<Rightarrow> json \<Rightarrow> row list" where
  "course_details_rows matches db param =
     map (cd_row db)
       (group_by (\<lambda>r. cd_key (fst (fst r)))
          (filter (\<lambda>r. matches (c_course_id (fst (fst r))) param) (cd_joined db)))"

subsection \<open>Top performers\<close>

text \<open>
  Students inner-joined with enrollments and courses, grouped by the student columns,
  filtered by the two thresholds, ordered and cut to twenty rows.
\<close>

type_synonym performer_key = "int \<times> string \<times> string \<times> string \<times> int"




record performer =
  p_student_id :: int
  p_first_name :: string
  p_last_name :: string
  p_email :: string
  p_student_grade :: int
  p_courses_completed :: nat
  p_total_credits_earned :: "rat option"
  p_weighted_gpa :: "rat option"
  p_a_count :: "rat option"
  p_performance_rating :: string

definition performance_rating :: "letter option list \<Rightarrow> string" where
  "performance_rating grades =
     (case sql_avg (map gpa_case grades) of
        None \<Rightarrow> ''Satisfactory''
      | Some g \<Rightarrow>
          if 38 / 10 \<le> g then ''Outstanding''
          else if 35 / 10 \<le> g then ''Excellent''
          else if 3 \<le> g then ''Good''
          else ''Satisfactory'')"

text \<open>The (grade, credits) pairs of the rows of a group.\<close>

definition graded_credits :: "((student \<times> enrollment) \<times> course) list \<Rightarrow> (letter option \<times> int) list" where
  "graded_credits rs = map (\<lambda>r. (e_grade (snd (fst r)), c_credits (snd r))) rs"

definition performer_of :: "performer_key \<times> ((student \<times> enrollment) \<times> course) list \<Rightarrow> performer" where
  "performer_of g =
     (case g of ((sid, fname, lname, email, grade), rs) \<Rightarrow>
        \<lparr>p_student_id = sid, p_first_name = fname, p_last_name = lname, p_email = email,
         p_student_grade = grade,
         p_courses_completed = sql_count_distinct (map (\<lambda>r. Some (e_course_id (snd (fst r)))) rs),
         p_total_credits_earned = sql_sum (map (\<lambda>r. Some (of_int (c_credits (snd r)))) rs),
         p_weighted_gpa = weighted_gpa (graded_credits rs),
         p_a_count = count_letter A (map (\<lambda>r. e_grade (snd (fst r))) rs),
         p_performance_rating = performance_rating (map (\<lambda>r. e_grade (snd (fst r))) rs)\<rparr>)"






definition performer_row :: "performer \<Rightarrow> row" where
  "performer_row p =
     [(''student_id'', SqlInt (p_student_id p)),
      (''first_name'', SqlStr (p_first_name p)),
      (''last_name'', SqlStr (p_last_name p)),
      (''email'', SqlStr (p_email p)),
      (''student_grade'', SqlInt (p_student_grade p)),
      (''courses_completed'', SqlInt (int (p_courses_completed p))),
      (''total_credits_earned'', sql_num (p_total_credits_earned p)),
      (''weighted_gpa'', sql_num (p_weighted_gpa p)),
      (''a_count'', sql_num (p_a_count p)),
      (''performance_rating'', SqlStr (p_performance_rating p))]"


subsection \<open>The credit-weighted average as the specification words it\<close>

definition grade_point :: "letter \<Rightarrow> rat" where
  "grade_point l = (case l of A \<Rightarrow> 4 | B \<Rightarrow> 3 | C \<Rightarrow> 2 | D \<Rightarrow> 1 | F \<Rightarrow> 0)"

definition credit_weighted_average :: "(letter \<times> int) list \<Rightarrow> rat" where
  "credit_weighted_average xs =
     sql_round2 ((\<Sum>x\<leftarrow>xs. grade_point (fst x) * of_int (snd x)) / (\<Sum>x\<leftarrow>xs. of_int (snd x)))"

subsection \<open>Sample tables\<close>

definition sample_db :: database where
  "sample_db =
     \<lparr>students =
        [\<lparr>s_student_id = 1, s_first_name = ''John'', s_last_name = ''Smith'',
          s_email = ''john.smith@school.edu'', s_grade = 9, s_enrollment_date = 19601\<rparr>,
         \<lparr>s_student_id = 2, s_first_name = ''Emily'', s_last_name = ''Johnson'',
          s_email = ''emily.johnson@school.edu'', s_grade = 9, s_enrollment_date = 19601\<rparr>],
      courses =
        [\<lparr>c_course_id = 1, c_course_name = ''Algebra I'', c_department = ''Mathematics'',
          c_credits = 4\<rparr>,
         \<lparr>c_course_id = 10, c_course_name = ''English 9'', c_department = ''English'',
          c_credits = 3\<rparr>,
         \<lparr>c_course_id = 17, c_course_name = ''Art I'', c_department = ''Arts'',
          c_credits = 2\<rparr>],
      enrollments =
        [\<lparr>e_enrollment_id = 1, e_student_id = 1, e_course_id = 1, e_enrollment_date = 19601,
          e_grade = Some A\<rparr>,
         \<lparr>e_enrollment_id = 2, e_student_id = 1, e_course_id = 10, e_enrollment_date = 19601,
          e_grade = Some B\<rparr>]\<rparr>"




text \<open>A store that answers every call with the given rows, and one that always throws.\<close>

definition answering :: "row list \<Rightarrow> pool" where
  "answering rows call = Inr rows"

definition throwing :: pool where
  "throwing call = Inl (DbError ''connection lost'')"

text \<open>A comparison of an integer column with a bound string of decimal digits.\<close>

definition matches_decimal :: "int \<Rightarrow> json \<Rightarrow> bool" where
  "matches_decimal i v =
     (case v of JString s \<Rightarrow> parseInt_text s = Num (of_int i) | _ \<Rightarrow> False)"

section \<open>Properties of the request handlers\<close>

lemmas handler_defs =
  students_by_grade_def student_enrollments_def all_with_enrollments_def
  students_per_grade_def popular_courses_def student_performance_def
  students_in_courses_def course_details_def top_performers_def departments_def
  res_json_def res_status_json_def failure_def rows_length_def

lemma split_on_not_Nil: "split_on sep s \<noteq> []"
  by (induction s) (auto split: list.splits)

lemma at_most_one_call: "length (calls (handle p r)) \<le> 1"
  by (cases r) (auto simp: handler_defs Let_def split: sum.splits list.splits if_splits)

text \<open>A request sends nothing, or the one text of its route.\<close>

lemma sent_queries_cases:
  "sent_queries p r = [] \<or>
   sent_queries p r =
     [case r of
        StudentsByGrade g \<Rightarrow> students_by_grade_query
      | StudentEnrollments i \<Rightarrow> student_enrollments_query
      | AllWithEnrollments \<Rightarrow> all_with_enrollments_query
      | StudentsPerGrade \<Rightarrow> students_per_grade_query
      | PopularCourses m \<Rightarrow> popular_courses_query
      | StudentPerformance m g \<Rightarrow> student_performance_query g
      | StudentsInCourses c \<Rightarrow> students_in_courses_query
      | CourseDetails c \<Rightarrow> course_details_query
      | TopPerformers c g \<Rightarrow> top_performers_query
      | Departments \<Rightarrow> departments_query]"
  by (cases r) (auto simp: sent_queries_def handler_defs Let_def split: sum.splits list.splits if_splits)

lemma student_performance_query_cong:
  "truthy g = truthy g' \<Longrightarrow> student_performance_query g = student_performance_query g'"
  by (simp add: student_performance_query_def)

subsection \<open>Numbers read from the query string\<close>

lemma to_double_0: "to_double 0 = Num 0"
  by (simp add: to_double_def)

lemma to_double_small:
  assumes "1 \<le> \<bar>r\<bar>" and "\<bar>r\<bar> \<le> 1000000"
  shows "to_double r = Num r"
proof -
  have a: "(1::rat) / 2 ^ 1075 < 1" by simp
  have "(1000000::rat) < 2 ^ 20" by simp
  also have "(2::rat) ^ 20 = 2 ^ 1024 / 2 ^ 1004" by (simp add: power_diff [symmetric])
  also have "\<dots> \<le> 2 ^ 1024 / 2" by (intro divide_left_mono) simp_all
  also have "(2::rat) ^ 1024 / 2 = 2 ^ 1024 - 2 ^ 1023" by simp
  also have "\<dots> < 2 ^ 1024 - 2 ^ 970" by (simp add: power_strict_increasing)
  finally have b: "(1000000::rat) < 2 ^ 1024 - 2 ^ 970" .
  from assms a b show ?thesis unfolding to_double_def by auto
qed

lemmas parse_defs =
  parseFloat_def parseFloat_text_def parseInt_def parseInt_text_def ToString_def
  is_whitespace_def digit_of_def digits_value_def pow10_def

lemma parseFloat_absent: "parseFloat None = Inr NaN"
  by (simp add: parse_defs)

lemma parseInt_absent: "parseInt None = Inr NaN"
  by (simp add: parse_defs)

lemma parseFloat_0: "parseFloat (Some (QStr ''0'')) = Inr (Num 0)"
  by (simp add: parse_defs to_double_0)

lemma parseInt_0: "parseInt (Some (QStr ''0'')) = Inr (Num 0)"
  by (simp add: parse_defs to_double_0)



lemma parseFloat_3: "parseFloat (Some (QStr ''3.0'')) = Inr (Num 3)"
  by (simp add: parse_defs to_double_small)

text \<open>A string converts to itself; an object with a key \<^verbatim>\<open>toString\<close> does not convert.\<close>

lemma ToString_string: "ToString (Some (QStr s)) = Inr s"
  by (simp add: ToString_def)

lemma ToString_own_toString:
  "ToString (Some (QObj [(''toString'', v)])) =
     Inl (TypeError ''Cannot convert object to primitive value'')"
  by (simp add: ToString_def)

lemma parse_own_toString:
  "parseInt (Some (QObj [(''toString'', v)])) =
     Inl (TypeError ''Cannot convert object to primitive value'')"
  "parseFloat (Some (QObj [(''toString'', v)])) =
     Inl (TypeError ''Cannot convert object to primitive value'')"
  by (simp_all add: parseInt_def parseFloat_def ToString_own_toString)

lemma placeholders_head: "placeholders student_performance_query_head = 0"
  by (simp add: placeholders_def student_performance_query_head_def)

lemma placeholders_tail: "placeholders student_performance_query_tail = 1"
  by (simp add: placeholders_def student_performance_query_tail_def)

lemma falsy_iff: "\<not> truthy g \<longleftrightarrow> g = None \<or> g = Some (QStr '''')"
proof (cases g)
  case None
  then show ?thesis by simp
next
  case (Some v)
  then show ?thesis by (cases v) simp_all
qed

lemma placeholders_concat: "placeholders (concat xss) = sum_list (map placeholders xss)"
  by (induction xss) (simp_all add: placeholders_def)

lemma placeholders_queries:
  "placeholders students_by_grade_query = 1"
  "placeholders student_enrollments_query = 1"
  "placeholders all_with_enrollments_query = 0"
  "placeholders students_per_grade_query = 0"
  "placeholders popular_courses_query = 1"
  "placeholders students_in_courses_query = 2"
  "placeholders course_details_query = 1"
  "placeholders top_performers_query = 2"
  "placeholders departments_query = 0"
  by (simp_all only: students_by_grade_query_def student_enrollments_query_def
        all_with_enrollments_query_def students_per_grade_query_def popular_courses_query_def
        students_in_courses_query_def course_details_query_def top_performers_query_def
        departments_query_def placeholders_concat list.map)
     (simp_all add: placeholders_def)

lemma placeholders_append: "placeholders (xs @ ys) = placeholders xs + placeholders ys"
  by (simp add: placeholders_def)

lemma placeholders_student_performance:
  "placeholders (student_performance_query g) = (if truthy g then 2 else 1)"
  by (simp add: student_performance_query_def placeholders_append placeholders_head
        placeholders_tail) (simp add: placeholders_def)

text \<open>Every call binds as many values as its text has placeholders.\<close>

lemma placeholders_match_params:
  "c \<in> set (calls (handle p r)) \<Longrightarrow> placeholders (fst c) = length (snd c)"
  by (cases r)
     (auto simp: handler_defs Let_def placeholders_queries placeholders_student_performance
        split: sum.splits list.splits if_splits)

subsection \<open>The query text does not carry parameter values\<close>

text \<open>
  C1, as the code has it. Two requests to the same route send the same query text,
  whatever the values of their path and query parameters and whatever the store answers,
  provided their grade values agree in truthiness: the only variation of a template is the
  grade fragment of student performance, and it is chosen by whether the grade value is
  truthy (supplied and not the empty string), not by whether it is supplied.
\<close>

theorem query_text_independent:
  assumes "endpoint_of r = endpoint_of r'" and "truthy (grade_of r) = truthy (grade_of r')"
    and "q \<in> set (sent_queries p r)" and "q' \<in> set (sent_queries p' r')"
  shows "q = q'"
proof -
  from assms(3) sent_queries_cases [of p r] have q: "sent_queries p r = [q]" by auto
  from assms(4) sent_queries_cases [of p' r'] have q': "sent_queries p' r' = [q']" by auto
  show ?thesis
  proof (cases r)
    case (StudentPerformance m g)
    with assms(1) obtain m' g' where r': "r' = StudentPerformance m' g'" by (cases r') auto
    from assms(2) StudentPerformance r' have "truthy g = truthy g'" by simp
    then have "student_performance_query g = student_performance_query g'"
      by (rule student_performance_query_cong)
    with q q' sent_queries_cases [of p r] sent_queries_cases [of p' r'] StudentPerformance r'
    show ?thesis by simp
  qed (use assms(1) q q' sent_queries_cases [of p r] sent_queries_cases [of p' r'] in
        \<open>cases r'; simp\<close>)+
qed

text \<open>
  A grade value full of query metacharacters and a plain one reach the store under the
  same text.
\<close>

theorem query_text_independent_witness:
  "hd (sent_queries (answering []) (StudentsByGrade ''10; DROP TABLE students'')) =
   hd (sent_queries throwing (StudentsByGrade ''10''))"
proof -
  have a: "hd (sent_queries (answering []) (StudentsByGrade ''10; DROP TABLE students''))
      \<in> set (sent_queries (answering []) (StudentsByGrade ''10; DROP TABLE students''))"
    by (simp add: sent_queries_def handler_defs answering_def)
  have b: "hd (sent_queries throwing (StudentsByGrade ''10''))
      \<in> set (sent_queries throwing (StudentsByGrade ''10''))"
    by (simp add: sent_queries_def handler_defs throwing_def)
  show ?thesis
    by (rule query_text_independent [OF _ _ a b]) simp_all
qed

text \<open>
  C1 as stated fails: two student-performance requests that both supply a grade and differ
  only in its value, the empty string and \<^verbatim>\<open>10\<close>, send different texts.
\<close>

theorem empty_grade_changes_template:
  "sent_queries (answering []) (StudentPerformance None (Some (QStr ''''))) \<noteq>
   sent_queries (answering []) (StudentPerformance None (Some (QStr ''10'')))"
  by (simp add: sent_queries_def handler_defs Let_def answering_def
        student_performance_query_def parseFloat_absent ToString_string)

subsection \<open>Parameter binding of student performance\<close>

text \<open>
  C2, as the code has it. The grade value is falsy exactly when it is absent or the empty
  string. Let \<^verbatim>\<open>minGPA\<close> parse without throwing. When the grade is falsy the call has
  the template without the fragment and exactly one bound value, the GPA threshold. When
  it is truthy and converts to a string without throwing, the template has the fragment
  \<^verbatim>\<open>AND s.grade = ?\<close> and exactly two bound values, the grade and then the threshold.
  The text before the fragment has no placeholder and the text after it has one, so the
  bound values are in the order of the placeholders. When the parse of \<^verbatim>\<open>minGPA\<close> or
  the conversion of a truthy grade throws, no call is made and the answer is 500.
\<close>

theorem student_performance_binding:
  "(\<not> truthy g \<longleftrightarrow> g = None \<or> g = Some (QStr '''')) \<and>
   (parseFloat m = Inr x \<and> \<not> truthy g \<longrightarrow>
      calls (student_performance p m g) =
        [(student_performance_query_head @ student_performance_query_tail,
          [JNumber (js_or x (Num 0))])]) \<and>
   (parseFloat m = Inr x \<and> truthy g \<and> ToString g = Inr s \<longrightarrow>
      calls (student_performance p m g) =
        [(student_performance_query_head @ ''AND s.grade = ?'' @ student_performance_query_tail,
          [json_of_value g, JNumber (js_or x (Num 0))])]) \<and>
   (parseFloat m = Inl e \<or> (truthy g \<and> ToString g = Inl e) \<longrightarrow>
      calls (student_performance p m g) = [] \<and> status (student_performance p m g) = 500) \<and>
   placeholders student_performance_query_head = 0 \<and>
   placeholders student_performance_query_tail = 1"
proof -
  have falsy: "parseFloat m = Inr x \<and> \<not> truthy g \<longrightarrow>
      calls (student_performance p m g) =
        [(student_performance_query_head @ student_performance_query_tail,
          [JNumber (js_or x (Num 0))])]"
    by (simp add: student_performance_def student_performance_query_def Let_def
          res_json_def res_status_json_def split: sum.splits)
  have truthy: "parseFloat m = Inr x \<and> truthy g \<and> ToString g = Inr s \<longrightarrow>
      calls (student_performance p m g) =
        [(student_performance_query_head @ ''AND s.grade = ?'' @ student_performance_query_tail,
          [json_of_value g, JNumber (js_or x (Num 0))])]"
    by (simp add: student_performance_def student_performance_query_def Let_def
          res_json_def res_status_json_def split: sum.splits)
  have thrown: "parseFloat m = Inl e \<or> (truthy g \<and> ToString g = Inl e) \<longrightarrow>
      calls (student_performance p m g) = [] \<and> status (student_performance p m g) = 500"
    by (auto simp: student_performance_def Let_def res_status_json_def split: sum.splits)
  from falsy_iff [of g] falsy truthy thrown placeholders_head placeholders_tail show ?thesis
    by (intro conjI)
qed

theorem student_performance_binding_witness:
  "calls (student_performance (answering []) (Some (QStr ''3.0'')) (Some (QStr ''10''))) =
     [(student_performance_query_head @ ''AND s.grade = ?'' @ student_performance_query_tail,
       [JString ''10'', JNumber (Num 3)])] \<and>
   calls (student_performance (answering []) (Some (QStr ''3.0'')) None) =
     [(student_performance_query_head @ student_performance_query_tail, [JNumber (Num 3)])] \<and>
   calls (student_performance (answering []) (Some (QStr ''3.0''))
            (Some (QObj [(''toString'', QStr ''x'')]))) = []"
  using
    student_performance_binding [of "Some (QStr ''10'')" "Some (QStr ''3.0'')" "Num 3" "answering []"
      "''10''"]
    student_performance_binding [of None "Some (QStr ''3.0'')" "Num 3" "answering []"]
    student_performance_binding [of "Some (QObj [(''toString'', QStr ''x'')])" "Some (QStr ''3.0'')"
      "Num 3" "answering []" _ "TypeError ''Cannot convert object to primitive value''"]
  by (simp add: parseFloat_3 js_or_def ToString_string ToString_own_toString)

text \<open>
  C2 as stated fails at two inputs that supply a grade. With the grade supplied as the
  empty string the call has no grade fragment and one bound value. With the grade supplied
  as an object with a key \<^verbatim>\<open>toString\<close> the log line throws, no query is executed and
  the answer is 500.
\<close>

theorem empty_grade_binds_one_parameter:
  "calls (student_performance (answering []) (Some (QStr ''3.0'')) (Some (QStr ''''))) =
     [(student_performance_query_head @ student_performance_query_tail, [JNumber (Num 3)])] \<and>
   student_performance (answering []) (Some (QStr ''3.0''))
       (Some (QObj [(''toString'', QStr ''x'')])) =
     \<lparr>calls = [], status = 500,
      body = [(''success'', JBool False),
              (''error'', JString ''Failed to fetch performance data'')]\<rparr>"
  by (simp add: student_performance_def student_performance_query_def Let_def res_json_def
        res_status_json_def failure_def answering_def parseFloat_3 js_or_def
        ToString_own_toString)

subsection \<open>The course list of students in courses\<close>

text \<open>
  An absent value is answered with 400 and no call to the store; a string is split at
  commas and the list is bound twice, and is never answered with 400.
\<close>

lemma students_in_courses_absent:
  "students_in_courses p None =
     \<lparr>calls = [], status = 400,
      body = [(''success'', JBool False),
              (''error'', JString ''Please provide courseIds as comma-separated values'')]\<rparr>"
  by (simp add: students_in_courses_def res_status_json_def failure_def)

lemma students_in_courses_string:
  "calls (students_in_courses p (Some (QStr s))) =
     [(students_in_courses_query,
       [JArray (map JString (split_on (CHR '','') s)),
        JArray (map JString (split_on (CHR '','') s))])] \<and>
   status (students_in_courses p (Some (QStr s))) \<noteq> 400"
  by (simp add: students_in_courses_def Let_def res_json_def res_status_json_def
        split_on_not_Nil split: sum.splits)

text \<open>
  C3 at the empty value. The claim asks for 400 before any query; the handler splits the
  empty string into one empty piece, finds the list not empty, and sends the query with
  that list bound twice.
\<close>

theorem empty_courseIds_is_queried:
  "students_in_courses (answering []) (Some (QStr '''')) =
     \<lparr>calls = [(students_in_courses_query, [JArray [JString ''''], JArray [JString '''']])],
      status = 200,
      body = [(''success'', JBool True), (''courseIds'', JArray [JString '''']),
              (''count'', JNumber (Num 0)), (''data'', JArray [])]\<rparr>"
  by (simp add: students_in_courses_def Let_def res_json_def rows_length_def answering_def)

subsection \<open>The defaults of top performers\<close>

lemma js_or_default: "a = Num 0 \<or> a = NaN \<Longrightarrow> js_or a b = b"
  by (auto simp: js_or_def)

lemma js_or_given: "a \<noteq> Num 0 \<Longrightarrow> a \<noteq> NaN \<Longrightarrow> js_or a b = a"
  by (cases a) (auto simp: js_or_def)

lemma js_or_truthy: "b \<noteq> Num 0 \<Longrightarrow> b \<noteq> NaN \<Longrightarrow> js_or a b \<noteq> Num 0 \<and> js_or a b \<noteq> NaN"
  by (cases a) (auto simp: js_or_def)

lemma top_performers_calls:
  "parseInt mc = Inr a \<Longrightarrow> parseFloat mg = Inr b \<Longrightarrow>
   calls (top_performers p mc mg) =
     [(top_performers_query, [JNumber (js_or a (Num 3)), JNumber (js_or b (Num (7 / 2)))])]"
  by (simp add: top_performers_def Let_def res_json_def res_status_json_def split: sum.splits)

lemma top_performers_thrown:
  "parseInt mc = Inl e \<or> parseFloat mg = Inl e \<Longrightarrow>
   calls (top_performers p mc mg) = [] \<and> status (top_performers p mc mg) = 500"
  by (auto simp: top_performers_def res_status_json_def split: sum.splits)

text \<open>
  C9. When both values parse, top performers makes one call, binding
  \<^verbatim>\<open>parsed || 3\<close> and \<^verbatim>\<open>parsed || 3.5\<close>: a \<^verbatim>\<open>minCourses\<close> that parses to zero or
  \<^verbatim>\<open>NaN\<close> is replaced by 3, a \<^verbatim>\<open>minGPA\<close> that parses to zero or \<^verbatim>\<open>NaN\<close> by 3.5,
  and any other parsed value is bound as it is. When a parse throws, no call is made and
  the answer is 500. So no call ever binds a zero or a \<^verbatim>\<open>NaN\<close>. The texts \<^verbatim>\<open>0\<close>
  and an absent value parse to zero and \<^verbatim>\<open>NaN\<close>, and a request with \<^verbatim>\<open>minGPA=0\<close>
  is handled exactly as one without \<^verbatim>\<open>minGPA\<close>.
\<close>

theorem top_performers_defaults:
  "(parseInt mc = Inr a \<and> parseFloat mg = Inr b \<longrightarrow>
      calls (top_performers p mc mg) =
        [(top_performers_query, [JNumber (js_or a (Num 3)), JNumber (js_or b (Num (7 / 2)))])] \<and>
      (a = Num 0 \<or> a = NaN \<longrightarrow> js_or a (Num 3) = Num 3) \<and>
      (b = Num 0 \<or> b = NaN \<longrightarrow> js_or b (Num (7 / 2)) = Num (7 / 2)) \<and>
      (a \<noteq> Num 0 \<and> a \<noteq> NaN \<longrightarrow> js_or a (Num 3) = a) \<and>
      (b \<noteq> Num 0 \<and> b \<noteq> NaN \<longrightarrow> js_or b (Num (7 / 2)) = b)) \<and>
   (parseInt mc = Inl e \<or> parseFloat mg = Inl e \<longrightarrow>
      calls (top_performers p mc mg) = [] \<and> status (top_performers p mc mg) = 500) \<and>
   (c \<in> set (calls (top_performers p mc mg)) \<longrightarrow>
      (\<exists>x y. snd c = [JNumber x, JNumber y] \<and>
             x \<noteq> Num 0 \<and> x \<noteq> NaN \<and> y \<noteq> Num 0 \<and> y \<noteq> NaN)) \<and>
   parseFloat (Some (QStr ''0'')) = Inr (Num 0) \<and>
   parseFloat None = Inr NaN \<and>
   top_performers p mc (Some (QStr ''0'')) = top_performers p mc None"
proof -
  have parsed: "parseInt mc = Inr a \<and> parseFloat mg = Inr b \<longrightarrow>
      calls (top_performers p mc mg) =
        [(top_performers_query, [JNumber (js_or a (Num 3)), JNumber (js_or b (Num (7 / 2)))])] \<and>
      (a = Num 0 \<or> a = NaN \<longrightarrow> js_or a (Num 3) = Num 3) \<and>
      (b = Num 0 \<or> b = NaN \<longrightarrow> js_or b (Num (7 / 2)) = Num (7 / 2)) \<and>
      (a \<noteq> Num 0 \<and> a \<noteq> NaN \<longrightarrow> js_or a (Num 3) = a) \<and>
      (b \<noteq> Num 0 \<and> b \<noteq> NaN \<longrightarrow> js_or b (Num (7 / 2)) = b)"
    using top_performers_calls [of mc a mg b p]
      js_or_default [of a "Num 3"] js_or_default [of b "Num (7 / 2)"]
      js_or_given [of a "Num 3"] js_or_given [of b "Num (7 / 2)"]
    by blast
  have thrown: "parseInt mc = Inl e \<or> parseFloat mg = Inl e \<longrightarrow>
      calls (top_performers p mc mg) = [] \<and> status (top_performers p mc mg) = 500"
    using top_performers_thrown [of mc e mg p] by blast
  have bound: "c \<in> set (calls (top_performers p mc mg)) \<longrightarrow>
      (\<exists>x y. snd c = [JNumber x, JNumber y] \<and>
             x \<noteq> Num 0 \<and> x \<noteq> NaN \<and> y \<noteq> Num 0 \<and> y \<noteq> NaN)"
  proof
    assume c: "c \<in> set (calls (top_performers p mc mg))"
    show "\<exists>x y. snd c = [JNumber x, JNumber y] \<and>
             x \<noteq> Num 0 \<and> x \<noteq> NaN \<and> y \<noteq> Num 0 \<and> y \<noteq> NaN"
    proof (cases "parseInt mc")
      case (Inl e')
      with top_performers_thrown [of mc e' mg p] c show ?thesis by simp
    next
      case a: (Inr a')
      show ?thesis
      proof (cases "parseFloat mg")
        case (Inl e')
        with top_performers_thrown [of mc e' mg p] c show ?thesis by simp
      next
        case (Inr b')
        from top_performers_calls [OF a Inr, of p] c
        have "snd c = [JNumber (js_or a' (Num 3)), JNumber (js_or b' (Num (7 / 2)))]"
          by simp
        with js_or_truthy [of "Num 3" a'] js_or_truthy [of "Num (7 / 2)" b']
        show ?thesis by simp
      qed
    qed
  qed
  have same: "top_performers p mc (Some (QStr ''0'')) = top_performers p mc None"
    by (cases "parseInt mc")
      (simp_all add: top_performers_def parseFloat_0 parseFloat_absent js_or_def)
  from parsed thrown bound parseFloat_0 parseFloat_absent same show ?thesis
    by (intro conjI)
qed

theorem top_performers_defaults_witness:
  "calls (top_performers (answering []) (Some (QStr ''0'')) None) =
     [(top_performers_query, [JNumber (Num 3), JNumber (Num (7 / 2))])] \<and>
   calls (top_performers (answering []) (Some (QObj [(''toString'', QStr ''1'')])) None) = []"
  using
    top_performers_defaults [of "Some (QStr ''0'')" "Num 0" None NaN "answering []"]
    top_performers_defaults [of "Some (QObj [(''toString'', QStr ''1'')])" _ None _ "answering []"
      "TypeError ''Cannot convert object to primitive value''"]
  by (simp add: parseInt_0 parseFloat_absent parse_own_toString)

subsection \<open>The count field\<close>

text \<open>
  C10. Whenever the body of a response has a \<^verbatim>\<open>count\<close> field, the handler made one
  call, the store answered it with rows, the \<^verbatim>\<open>data\<close> field is the array of exactly
  these rows, and the count is the length of that array, the number of rows of the result
  set. And whenever the store answers the call of an operation other than students per
  grade and course details with rows, the body has that count and that data.
\<close>

theorem count_is_data_length:
  "(map_of (body (handle p r)) ''count'' = Some c \<longrightarrow>
      (\<exists>call rows xs.
         calls (handle p r) = [call] \<and> p call = Inr rows \<and> xs = map JRow rows \<and>
         map_of (body (handle p r)) ''data'' = Some (JArray xs) \<and>
         c = JNumber (Num (of_nat (length xs))) \<and>
         length xs = length rows)) \<and>
   (calls (handle p r) = [call] \<and> p call = Inr rows \<and>
    endpoint_of r \<noteq> EStudentsPerGrade \<and> endpoint_of r \<noteq> ECourseDetails \<longrightarrow>
      map_of (body (handle p r)) ''count'' = Some (JNumber (Num (of_nat (length rows)))) \<and>
      map_of (body (handle p r)) ''data'' = Some (JArray (map JRow rows)))"
  by (cases r) (auto simp: handler_defs Let_def split: sum.splits list.splits if_splits)

theorem count_is_data_length_witness:
  "map_of (body (handle (answering [[], []]) (StudentsByGrade ''10''))) ''count'' =
     Some (JNumber (Num 2)) \<and>
   map_of (body (handle (answering [[], []]) (StudentsByGrade ''10''))) ''data'' =
     Some (JArray [JRow [], JRow []]) \<and>
   map_of (body (handle (answering [[]]) (TopPerformers None None))) ''count'' =
     Some (JNumber (Num 1)) \<and>
   map_of (body (handle (answering [[]]) (TopPerformers None None))) ''data'' =
     Some (JArray [JRow []])"
proof -
  let ?call1 = "(students_by_grade_query, [JString ''10''])"
  let ?call2 = "(top_performers_query, [JNumber (Num 3), JNumber (Num (7 / 2))])"
  have c1: "calls (handle (answering [[], []]) (StudentsByGrade ''10'')) = [?call1] \<and>
      answering [[], []] ?call1 = Inr [[], []] \<and>
      endpoint_of (StudentsByGrade ''10'') \<noteq> EStudentsPerGrade \<and>
      endpoint_of (StudentsByGrade ''10'') \<noteq> ECourseDetails"
    by (simp add: handler_defs answering_def)
  have c2: "calls (handle (answering [[]]) (TopPerformers None None)) = [?call2] \<and>
      answering [[]] ?call2 = Inr [[]] \<and>
      endpoint_of (TopPerformers None None) \<noteq> EStudentsPerGrade \<and>
      endpoint_of (TopPerformers None None) \<noteq> ECourseDetails"
    by (simp add: handler_defs Let_def answering_def parseInt_absent parseFloat_absent js_or_def)
  note t1 = count_is_data_length [where p = "answering [[], []]" and r = "StudentsByGrade ''10''"
      and call = ?call1 and rows = "[[], []]", THEN conjunct2, THEN mp, OF c1]
  note t2 = count_is_data_length [where p = "answering [[]]" and r = "TopPerformers None None"
      and call = ?call2 and rows = "[[]]", THEN conjunct2, THEN mp, OF c2]
  from t1 t2 show ?thesis by simp
qed

section \<open>Properties of the queries\<close>

subsection \<open>Aggregates and joins\<close>

lemma non_null_map_Some: "non_null (map (\<lambda>x. Some (f x)) xs) = map f xs"
  by (induction xs) simp_all

lemma sql_sum_map_Some:
  "sql_sum (map (\<lambda>x. Some (f x)) xs) = (if xs = [] then None else Some (sum_list (map f xs)))"
  by (cases xs) (simp_all add: sql_sum_def non_null_map_Some)

lemma non_null_gpa_case_filter:
  "non_null (map gpa_case (filter (\<lambda>g. g \<noteq> None) gs)) = non_null (map gpa_case gs)"
proof (induction gs)
  case Nil
  show ?case by simp
next
  case (Cons g gs)
  then show ?case
  proof (cases g)
    case None
    with Cons show ?thesis by simp
  next
    case (Some l)
    with Cons show ?thesis by (cases l) simp_all
  qed
qed

text \<open>
  The averages of student performance, course details and department analytics are the
  averages over the graded enrollments alone.
\<close>

lemma null_grades_skipped:
  "student_performance_gpa (filter (\<lambda>g. g \<noteq> None) gs) = student_performance_gpa gs"
  "course_details_average_gpa (filter (\<lambda>g. g \<noteq> None) gs) = course_details_average_gpa gs"
  "departments_avg_gpa (filter (\<lambda>g. g \<noteq> None) gs) = departments_avg_gpa gs"
  by (simp_all only: student_performance_gpa_def course_details_average_gpa_def
        departments_avg_gpa_def sql_avg_def non_null_gpa_case_filter)

lemma left_rows_fst: "fst ` set (left_rows on ys x) = {x}"
  by (cases "filter (on x) ys") (auto simp: left_rows_def image_iff)

lemma left_rows_filter:
  "filter (\<lambda>r. P (fst r)) (left_rows on ys x) = (if P x then left_rows on ys x else [])"
proof -
  have "\<forall>r\<in>set (left_rows on ys x). fst r = x"
    using left_rows_fst [of on ys x] by auto
  then show ?thesis by (auto simp: filter_empty_conv filter_id_conv)
qed

lemma left_join_filter:
  "filter (\<lambda>r. P (fst r)) (left_join on xs ys) = left_join on (filter P xs) ys"
  by (induction xs) (simp_all add: left_join_def left_rows_filter)

lemma left_join_fst: "fst ` set (left_join on xs ys) = set xs"
proof -
  have "fst ` set (left_join on xs ys) = (\<Union>x\<in>set xs. fst ` set (left_rows on ys x))"
    by (auto simp: left_join_def)
  then show ?thesis by (simp add: left_rows_fst)
qed

lemma left_join_Nil: "left_join on [] ys = []"
  by (simp add: left_join_def)

lemma filter_same_key:
  assumes "distinct (map f xs)" and "x \<in> set xs" and "\<And>y. g y = g x \<Longrightarrow> f y = f x"
  shows "filter (\<lambda>y. g y = g x) xs = [x]"
  using assms(1,2)
proof (induction xs)
  case Nil
  then show ?case by simp
next
  case (Cons a xs)
  show ?case
  proof (cases "a = x")
    case True
    from Cons.prems(1) True have "f x \<notin> f ` set xs" by simp
    then have "\<forall>y\<in>set xs. f y \<noteq> f x" by (metis imageI)
    with assms(3) have "\<forall>y\<in>set xs. g y \<noteq> g x" by blast
    then have "filter (\<lambda>y. g y = g x) xs = []" by (simp add: filter_empty_conv)
    with True show ?thesis by simp
  next
    case False
    with Cons.prems have x: "x \<in> set xs" and d: "distinct (map f xs)" by auto
    from Cons.prems(1) x have "f a \<noteq> f x" by auto
    with assms(3) have "g a \<noteq> g x" by blast
    with Cons.IH [OF d x] show ?thesis by simp
  qed
qed

lemma group_by_length: "length (group_by key rs) = card (key ` set rs)"
  by (simp add: group_by_def length_remdups_card_conv)

lemma group_by_member:
  "r \<in> set rs \<Longrightarrow> (key r, filter (\<lambda>r'. key r' = key r) rs) \<in> set (group_by key rs)"
  by (auto simp: group_by_def)

lemma group_by_Nil: "group_by key [] = []"
  by (simp add: group_by_def)

lemma group_by_single: "group_by key [r] = [(key r, [r])]"
  by (simp add: group_by_def)

lemma group_by_not_Nil: "rs \<noteq> [] \<Longrightarrow> group_by key rs \<noteq> []"
  by (cases rs) (auto simp: group_by_def)

subsection \<open>NULL grades in the GPA aggregates\<close>

text \<open>
  C4 at a course with one A and one enrollment in progress. The claim asks for the
  average over the graded enrollment alone, 4.0, which is what the student-performance
  aggregate gives; the popular-courses aggregate counts the \<^verbatim>\<open>NULL\<close> grade as 0.0 and
  gives 2.0. The weighted GPA of top performers leaves the \<^verbatim>\<open>NULL\<close> grade out of its
  numerator and keeps its credits in the denominator.
\<close>

theorem popular_courses_counts_null_grade:
  "popular_courses_average_gpa [Some A, None] = Some 2 \<and>
   student_performance_gpa [Some A, None] = Some 4 \<and>
   weighted_gpa [(Some A, 4), (None, 4)] = Some 2"
  by (simp add: popular_courses_average_gpa_def student_performance_gpa_def sql_avg_def
        weighted_gpa_def weighted_case_def sql_sum_def sql_round2_def floor_eq_iff)

subsection \<open>The weighted GPA\<close>

lemma weighted_case_graded:
  "weighted_case (Some l, credits) = Some (grade_point l * of_int credits)"
  by (cases l) (simp_all add: weighted_case_def grade_point_def)

lemma credit_weighted_average_example: "credit_weighted_average [(A, 4), (B, 3)] = 357 / 100"
  by (simp add: credit_weighted_average_def grade_point_def sql_round2_def floor_eq_iff)

lemma weighted_gpa_example: "weighted_gpa [(Some A, 4), (Some B, 3)] = Some (357 / 100)"
  by (simp add: weighted_gpa_def weighted_case_def sql_sum_def sql_round2_def floor_eq_iff)

text \<open>
  Over graded enrollments with positive credits, the weighted GPA of the query is the
  credit-weighted average of the grade points rounded to two decimals.
\<close>

lemma weighted_gpa_graded:
  assumes "xs \<noteq> []" and "\<forall>x\<in>set xs. 0 < snd x"
  shows "weighted_gpa (map (\<lambda>x. (Some (fst x), snd x)) xs) = Some (credit_weighted_average xs)"
proof -
  from assms have "0 < sum_list (map snd xs)"
  proof (induction xs)
    case Nil
    then show ?case by simp
  next
    case (Cons y ys)
    then show ?case by (cases "ys = []") auto
  qed
  moreover have "(\<Sum>x\<leftarrow>xs. (of_int (snd x) :: rat)) = of_int (sum_list (map snd xs))"
    by (induction xs) simp_all
  ultimately have "(\<Sum>x\<leftarrow>xs. (of_int (snd x) :: rat)) \<noteq> 0"
    by simp
  with assms(1) show ?thesis
    by (simp add: weighted_gpa_def weighted_case_graded sql_sum_map_Some comp_def
          credit_weighted_average_def)
qed

text \<open>
  The \<^verbatim>\<open>weighted_gpa\<close> column of the row of any group is the weighted GPA of the
  (grade, credits) pairs of its rows.
\<close>

lemma performer_weighted_gpa:
  "p_weighted_gpa (performer_of g) = weighted_gpa (graded_credits (snd g))"
  "map_of (performer_row (performer_of g)) ''weighted_gpa'' =
     Some (sql_num (weighted_gpa (graded_credits (snd g))))"
  by (simp_all add: performer_of_def performer_row_def split: prod.splits)

text \<open>
  So a student whose enrollments are all graded, with positive credits, has the
  credit-weighted average of the claim in the row, 3.57 for (A, 4 credits), (B, 3 credits).
\<close>

lemma weighted_gpa_row_graded:
  assumes "graded_credits (snd g) = map (\<lambda>x. (Some (fst x), snd x)) xs"
    and "xs \<noteq> []" and "\<forall>x\<in>set xs. 0 < snd x"
  shows "map_of (performer_row (performer_of g)) ''weighted_gpa'' =
     Some (SqlDec (credit_weighted_average xs))"
  by (simp add: performer_weighted_gpa assms(1) weighted_gpa_graded [OF assms(2,3)] sql_num_def)




subsection \<open>All students with enrollments\<close>

lemma awe_keys: "(\<lambda>r. awe_key (fst (fst r))) ` set (awe_joined db) = awe_key ` set (students db)"
proof -
  have "fst ` fst ` set (awe_joined db) = set (students db)"
    by (simp add: awe_joined_def left_join_fst)
  then have "awe_key ` fst ` fst ` set (awe_joined db) = awe_key ` set (students db)"
    by (simp only:)
  then show ?thesis by (simp add: image_image)
qed

lemma awe_key_inj:
  "distinct (map s_student_id (students db)) \<Longrightarrow> inj_on awe_key (set (students db))"
  by (rule inj_onI) (auto simp: awe_key_def distinct_map dest: inj_onD)

lemma awe_length:
  assumes "distinct (map s_student_id (students db))"
  shows "length (all_with_enrollments_rows weight db) = length (students db)"
proof -
  from assms have d: "distinct (students db)" by (simp add: distinct_map)
  have "length (all_with_enrollments_rows weight db) = card (awe_key ` set (students db))"
    by (simp add: all_with_enrollments_rows_def group_by_length awe_keys)
  also have "\<dots> = card (set (students db))"
    by (rule card_image) (rule awe_key_inj [OF assms])
  also have "\<dots> = length (students db)"
    using d by (rule distinct_card)
  finally show ?thesis .
qed

text \<open>The joined rows of a student without enrollments: one row, \<^verbatim>\<open>NULL\<close>-extended.\<close>

lemma awe_group_without_enrollments:
  assumes "distinct (map s_student_id (students db))" and "s \<in> set (students db)"
    and "\<forall>e\<in>set (enrollments db). e_student_id e \<noteq> s_student_id s"
  shows "filter (\<lambda>r. awe_key (fst (fst r)) = awe_key s) (awe_joined db) = [((s, None), None)]"
proof -
  have one: "filter (\<lambda>s'. awe_key s' = awe_key s) (students db) = [s]"
    using assms(1,2) by (rule filter_same_key) (simp add: awe_key_def)
  have none: "filter (\<lambda>e. s_student_id s = e_student_id e) (enrollments db) = []"
    using assms(3) by (auto simp: filter_empty_conv)
  let ?on1 = "\<lambda>s e. s_student_id s = e_student_id e"
  let ?on2 = "\<lambda>se c. case snd se of None \<Rightarrow> False | Some e \<Rightarrow> e_course_id e = c_course_id c"
  have "filter (\<lambda>r. awe_key (fst (fst r)) = awe_key s) (awe_joined db) =
      left_join ?on2
        (filter (\<lambda>se. awe_key (fst se) = awe_key s)
           (left_join ?on1 (students db) (enrollments db)))
        (courses db)"
    unfolding awe_joined_def by (rule left_join_filter [of "\<lambda>se. awe_key (fst se) = awe_key s"])
  also have "\<dots> =
      left_join ?on2
        (left_join ?on1 (filter (\<lambda>s'. awe_key s' = awe_key s) (students db)) (enrollments db))
        (courses db)"
    by (simp only: left_join_filter [of "\<lambda>s'. awe_key s' = awe_key s"])
  also have "\<dots> = [((s, None), None)]"
  proof -
    have j1: "left_join ?on1 [s] (enrollments db) = [(s, None)]"
      using none by (simp add: left_join_def left_rows_def)
    have j2: "left_join ?on2 [(s, None)] (courses db) = [((s, None), None)]"
      by (simp add: left_join_def left_rows_def)
    show ?thesis by (simp only: one j1 j2)
  qed
  finally show ?thesis .
qed

lemma awe_row_without_enrollments:
  assumes "distinct (map s_student_id (students db))" and "s \<in> set (students db)"
    and "\<forall>e\<in>set (enrollments db). e_student_id e \<noteq> s_student_id s"
  shows "[(''student_id'', SqlInt (s_student_id s)),
          (''first_name'', SqlStr (s_first_name s)),
          (''last_name'', SqlStr (s_last_name s)),
          (''grade'', SqlInt (s_grade s)),
          (''total_enrollments'', SqlInt 0),
          (''courses'', SqlNull)] \<in> set (all_with_enrollments_rows weight db)"
proof -
  let ?key = "\<lambda>r. awe_key (fst (fst r))"
  have "((s, None), None) \<in> set (filter (\<lambda>r. ?key r = awe_key s) (awe_joined db))"
    by (simp only: awe_group_without_enrollments [OF assms] list.set_intros)
  then have "((s, None), None) \<in> set (awe_joined db)" by simp
  from group_by_member [OF this, of ?key]
  have "(awe_key s, [((s, None), None)]) \<in> set (group_by ?key (awe_joined db))"
    by (simp add: awe_group_without_enrollments [OF assms])
  then have "awe_row (awe_key s, [((s, None), None)]) \<in> set (all_with_enrollments_rows weight db)"
    by (simp add: all_with_enrollments_rows_def)
  then show ?thesis
    by (simp add: awe_row_def awe_key_def sql_count_def group_concat_def)
qed

text \<open>
  C5. With student ids a key of the students table, whatever the enrollments table holds:
  the query has exactly one row per student; a student without enrollments has the row
  with \<^verbatim>\<open>total_enrollments\<close> 0 and \<^verbatim>\<open>courses\<close> \<^verbatim>\<open>NULL\<close>; and when the store answers the
  handler's call with these rows, the response is 200 with \<^verbatim>\<open>count\<close> the number of
  students.
\<close>

theorem all_with_enrollments_one_row_per_student:
  assumes "distinct (map s_student_id (students db))"
  shows
    "length (all_with_enrollments_rows weight (db\<lparr>enrollments := es\<rparr>)) = length (students db) \<and>
     (\<forall>s\<in>set (students db).
        (\<forall>e\<in>set (enrollments db). e_student_id e \<noteq> s_student_id s) \<longrightarrow>
        [(''student_id'', SqlInt (s_student_id s)),
         (''first_name'', SqlStr (s_first_name s)),
         (''last_name'', SqlStr (s_last_name s)),
         (''grade'', SqlInt (s_grade s)),
         (''total_enrollments'', SqlInt 0),
         (''courses'', SqlNull)] \<in> set (all_with_enrollments_rows weight db)) \<and>
     (pool_query (all_with_enrollments_query, []) = Inr (all_with_enrollments_rows weight db) \<longrightarrow>
        status (all_with_enrollments pool_query) = 200 \<and>
        map_of (body (all_with_enrollments pool_query)) ''count'' =
          Some (JNumber (Num (of_nat (length (students db))))) \<and>
        map_of (body (all_with_enrollments pool_query)) ''data'' =
          Some (JArray (map JRow (all_with_enrollments_rows weight db))))"
proof (intro conjI ballI impI)
  from assms have "distinct (map s_student_id (students (db\<lparr>enrollments := es\<rparr>)))" by simp
  from awe_length [OF this]
  show "length (all_with_enrollments_rows weight (db\<lparr>enrollments := es\<rparr>)) = length (students db)"
    by simp
next
  fix s
  assume "s \<in> set (students db)"
    and "\<forall>e\<in>set (enrollments db). e_student_id e \<noteq> s_student_id s"
  with assms show "[(''student_id'', SqlInt (s_student_id s)),
         (''first_name'', SqlStr (s_first_name s)),
         (''last_name'', SqlStr (s_last_name s)),
         (''grade'', SqlInt (s_grade s)),
         (''total_enrollments'', SqlInt 0),
         (''courses'', SqlNull)] \<in> set (all_with_enrollments_rows weight db)"
    by (rule awe_row_without_enrollments)
next
  assume a: "pool_query (all_with_enrollments_query, []) = Inr (all_with_enrollments_rows weight db)"
  then show "status (all_with_enrollments pool_query) = 200"
    by (simp add: all_with_enrollments_def res_json_def)
  from a show "map_of (body (all_with_enrollments pool_query)) ''count'' =
          Some (JNumber (Num (of_nat (length (students db)))))"
    by (simp add: all_with_enrollments_def res_json_def rows_length_def awe_length [OF assms])
  from a show "map_of (body (all_with_enrollments pool_query)) ''data'' =
          Some (JArray (map JRow (all_with_enrollments_rows weight db)))"
    by (simp add: all_with_enrollments_def res_json_def)
qed

theorem all_with_enrollments_one_row_per_student_witness:
  "length (all_with_enrollments_rows length (sample_db\<lparr>enrollments := []\<rparr>)) = 2 \<and>
   [(''student_id'', SqlInt 2), (''first_name'', SqlStr ''Emily''),
    (''last_name'', SqlStr ''Johnson''), (''grade'', SqlInt 9),
    (''total_enrollments'', SqlInt 0), (''courses'', SqlNull)]
     \<in> set (all_with_enrollments_rows length sample_db) \<and>
   map_of (body (all_with_enrollments (answering (all_with_enrollments_rows length sample_db))))
     ''count'' = Some (JNumber (Num 2))"
proof -
  have d: "distinct (map s_student_id (students sample_db))"
    by (simp add: sample_db_def)
  have s: "hd (tl (students sample_db)) \<in> set (students sample_db)"
    by (simp add: sample_db_def)
  have e: "\<forall>e\<in>set (enrollments sample_db).
      e_student_id e \<noteq> s_student_id (hd (tl (students sample_db)))"
    by (simp add: sample_db_def)
  have p: "answering (all_with_enrollments_rows length sample_db) (all_with_enrollments_query, []) =
      Inr (all_with_enrollments_rows length sample_db)"
    by (simp add: answering_def)
  from all_with_enrollments_one_row_per_student
    [OF d, of length "[]" "answering (all_with_enrollments_rows length sample_db)"] s e p
  have "length (all_with_enrollments_rows length (sample_db\<lparr>enrollments := []\<rparr>)) =
      length (students sample_db)"
    and "[(''student_id'', SqlInt (s_student_id (hd (tl (students sample_db))))),
         (''first_name'', SqlStr (s_first_name (hd (tl (students sample_db))))),
         (''last_name'', SqlStr (s_last_name (hd (tl (students sample_db))))),
         (''grade'', SqlInt (s_grade (hd (tl (students sample_db))))),
         (''total_enrollments'', SqlInt 0),
         (''courses'', SqlNull)] \<in> set (all_with_enrollments_rows length sample_db)"
    and "map_of (body (all_with_enrollments (answering (all_with_enrollments_rows length sample_db))))
      ''count'' = Some (JNumber (Num (of_nat (length (students sample_db)))))"
    by blast+
  moreover have "students sample_db = [hd (students sample_db), hd (tl (students sample_db))]"
    by (simp add: sample_db_def)
  moreover have "s_student_id (hd (tl (students sample_db))) = 2"
    "s_first_name (hd (tl (students sample_db))) = ''Emily''"
    "s_last_name (hd (tl (students sample_db))) = ''Johnson''"
    "s_grade (hd (tl (students sample_db))) = 9"
    "length (students sample_db) = 2"
    by (simp_all add: sample_db_def)
  ultimately show ?thesis by simp
qed

subsection \<open>Course details\<close>

lemma left_join_not_Nil: "xs \<noteq> [] \<Longrightarrow> left_join on xs ys \<noteq> []"
  using left_join_fst [of on xs ys] by auto

lemma cd_filtered:
  "filter (\<lambda>r. matches (c_course_id (fst (fst r))) param) (cd_joined db) =
   left_join (\<lambda>ce s. case snd ce of None \<Rightarrow> False | Some e \<Rightarrow> e_student_id e = s_student_id s)
     (left_join (\<lambda>c e. c_course_id c = e_course_id e)
        (filter (\<lambda>c. matches (c_course_id c) param) (courses db)) (enrollments db))
     (students db)"
proof -
  let ?on1 = "\<lambda>c e. c_course_id c = e_course_id e"
  let ?on2 = "\<lambda>ce s. case snd ce of None \<Rightarrow> False | Some e \<Rightarrow> e_student_id e = s_student_id s"
  have "filter (\<lambda>r. matches (c_course_id (fst (fst r))) param) (cd_joined db) =
      left_join ?on2
        (filter (\<lambda>ce. matches (c_course_id (fst ce)) param)
           (left_join ?on1 (courses db) (enrollments db)))
        (students db)"
    unfolding cd_joined_def
    by (rule left_join_filter [of "\<lambda>ce. matches (c_course_id (fst ce)) param"])
  also have "\<dots> =
      left_join ?on2
        (left_join ?on1 (filter (\<lambda>c. matches (c_course_id c) param) (courses db))
           (enrollments db))
        (students db)"
    by (simp only: left_join_filter [of "\<lambda>c. matches (c_course_id c) param"])
  finally show ?thesis .
qed

lemma course_details_rows_unknown:
  assumes "\<forall>c\<in>set (courses db). \<not> matches (c_course_id c) param"
  shows "course_details_rows matches db param = []"
proof -
  from assms have "filter (\<lambda>c. matches (c_course_id c) param) (courses db) = []"
    by (simp add: filter_empty_conv)
  then show ?thesis
    by (simp add: course_details_rows_def cd_filtered left_join_Nil group_by_Nil)
qed

lemma course_details_rows_known:
  assumes "\<exists>c\<in>set (courses db). matches (c_course_id c) param"
  shows "course_details_rows matches db param \<noteq> []"
proof -
  from assms have "filter (\<lambda>c. matches (c_course_id c) param) (courses db) \<noteq> []"
    by (simp add: filter_empty_conv)
  then have "filter (\<lambda>r. matches (c_course_id (fst (fst r))) param) (cd_joined db) \<noteq> []"
    unfolding cd_filtered by (intro left_join_not_Nil)
  then show ?thesis
    by (simp add: course_details_rows_def group_by_not_Nil)
qed

lemma inner_join_snd: "r \<in> set (inner_join on xs ys) \<Longrightarrow> snd r \<in> set ys"
  by (auto simp: inner_join_def)

lemma top_student_example_none:
  assumes "\<forall>e\<in>set (enrollments db). e_course_id e \<noteq> cid"
  shows "top_student_example db cid = SqlNull"
proof -
  have "filter (\<lambda>se. e_course_id (snd se) = cid \<and> e_grade (snd se) = Some A)
      (inner_join (\<lambda>s e. s_student_id s = e_student_id e) (students db) (enrollments db)) = []"
    using assms by (auto simp: filter_empty_conv dest: inner_join_snd)
  then show ?thesis by (simp add: top_student_example_def)
qed

lemma sql_round2_0: "sql_round2 0 = 0"
  by (simp add: sql_round2_def floor_eq_iff)

lemma course_details_rows_without_enrollments:
  assumes "filter (\<lambda>c'. matches (c_course_id c') param) (courses db) = [c]"
    and "\<forall>e\<in>set (enrollments db). e_course_id e \<noteq> c_course_id c"
  shows "course_details_rows matches db param =
    [[(''course_id'', SqlInt (c_course_id c)),
      (''course_name'', SqlStr (c_course_name c)),
      (''credits'', SqlInt (c_credits c)),
      (''department'', SqlStr (c_department c)),
      (''total_students'', SqlInt 0),
      (''grade_levels_represented'', SqlInt 0),
      (''count_A'', SqlDec 0),
      (''count_B'', SqlDec 0),
      (''count_C'', SqlDec 0),
      (''count_D'', SqlDec 0),
      (''count_F'', SqlDec 0),
      (''percent_A'', SqlDec 0),
      (''percent_B'', SqlDec 0),
      (''average_gpa'', SqlNull),
      (''latest_enrollment'', SqlNull),
      (''top_student_example'', SqlNull)]]"
proof -
  let ?on1 = "\<lambda>c e. c_course_id c = e_course_id e"
  let ?on2 = "\<lambda>ce s. case snd ce of None \<Rightarrow> False | Some e \<Rightarrow> e_student_id e = s_student_id s"
  have none: "filter (\<lambda>e. c_course_id c = e_course_id e) (enrollments db) = []"
    using assms(2) by (auto simp: filter_empty_conv)
  have j1: "left_join ?on1 [c] (enrollments db) = [(c, None)]"
    using none by (simp add: left_join_def left_rows_def)
  have j2: "left_join ?on2 [(c, None)] (students db) = [((c, None), None)]"
    by (simp add: left_join_def left_rows_def)
  have "filter (\<lambda>r. matches (c_course_id (fst (fst r))) param) (cd_joined db) =
      [((c, None), None)]"
    by (simp only: cd_filtered assms(1) j1 j2)
  then have "course_details_rows matches db param = [cd_row db (cd_key c, [((c, None), None)])]"
    by (simp add: course_details_rows_def group_by_single)
  also have "\<dots> = [[(''course_id'', SqlInt (c_course_id c)),
      (''course_name'', SqlStr (c_course_name c)),
      (''credits'', SqlInt (c_credits c)),
      (''department'', SqlStr (c_department c)),
      (''total_students'', SqlInt 0),
      (''grade_levels_represented'', SqlInt 0),
      (''count_A'', SqlDec 0),
      (''count_B'', SqlDec 0),
      (''count_C'', SqlDec 0),
      (''count_D'', SqlDec 0),
      (''count_F'', SqlDec 0),
      (''percent_A'', SqlDec 0),
      (''percent_B'', SqlDec 0),
      (''average_gpa'', SqlNull),
      (''latest_enrollment'', SqlNull),
      (''top_student_example'', SqlNull)]]"
    by (simp add: cd_row_def cd_key_def sql_count_distinct_def count_letter_def sql_sum_def
          cd_percent_def sql_num_def sql_round2_0 course_details_average_gpa_def sql_avg_def
          sql_max_def top_student_example_none [OF assms(2)])
  finally show ?thesis .
qed

text \<open>
  C6. Let the store answer the handler's call with the rows of the query. When no course
  has the bound id, the response is 404 with \<^verbatim>\<open>success\<close> false, the error
  \<^verbatim>\<open>Course not found\<close> and no data field. When some course has it, the response is 200.
  When the one course that has it has no enrollments, the data is a single object: the
  course columns, zero for the two distinct counts, the five letter counts and the two
  percentages, and \<^verbatim>\<open>NULL\<close> for the average GPA, the latest enrollment and the example
  student.
\<close>

theorem course_details_not_found_only_for_unknown_id:
  assumes "pool_query (course_details_query, [JString courseId]) =
           Inr (course_details_rows matches db (JString courseId))"
  shows
    "((\<forall>c\<in>set (courses db). \<not> matches (c_course_id c) (JString courseId)) \<longrightarrow>
        status (course_details pool_query courseId) = 404 \<and>
        body (course_details pool_query courseId) =
          [(''success'', JBool False), (''error'', JString ''Course not found'')]) \<and>
     ((\<exists>c\<in>set (courses db). matches (c_course_id c) (JString courseId)) \<longrightarrow>
        status (course_details pool_query courseId) = 200) \<and>
     (filter (\<lambda>c'. matches (c_course_id c') (JString courseId)) (courses db) = [c] \<and>
      (\<forall>e\<in>set (enrollments db). e_course_id e \<noteq> c_course_id c) \<longrightarrow>
        status (course_details pool_query courseId) = 200 \<and>
        body (course_details pool_query courseId) =
          [(''success'', JBool True),
           (''data'',
              JRow [(''course_id'', SqlInt (c_course_id c)),
                    (''course_name'', SqlStr (c_course_name c)),
                    (''credits'', SqlInt (c_credits c)),
                    (''department'', SqlStr (c_department c)),
                    (''total_students'', SqlInt 0),
                    (''grade_levels_represented'', SqlInt 0),
                    (''count_A'', SqlDec 0),
                    (''count_B'', SqlDec 0),
                    (''count_C'', SqlDec 0),
                    (''count_D'', SqlDec 0),
                    (''count_F'', SqlDec 0),
                    (''percent_A'', SqlDec 0),
                    (''percent_B'', SqlDec 0),
                    (''average_gpa'', SqlNull),
                    (''latest_enrollment'', SqlNull),
                    (''top_student_example'', SqlNull)])])"
proof (intro conjI impI)
  assume "\<forall>c\<in>set (courses db). \<not> matches (c_course_id c) (JString courseId)"
  then have r: "course_details_rows matches db (JString courseId) = []"
    by (rule course_details_rows_unknown)
  show "status (course_details pool_query courseId) = 404"
    by (simp add: course_details_def assms r res_status_json_def)
  show "body (course_details pool_query courseId) =
          [(''success'', JBool False), (''error'', JString ''Course not found'')]"
    by (simp add: course_details_def assms r res_status_json_def failure_def)
next
  assume "\<exists>c\<in>set (courses db). matches (c_course_id c) (JString courseId)"
  then have "course_details_rows matches db (JString courseId) \<noteq> []"
    by (rule course_details_rows_known)
  then show "status (course_details pool_query courseId) = 200"
    by (cases "course_details_rows matches db (JString courseId)")
      (simp_all add: course_details_def assms res_json_def)
next
  assume a: "filter (\<lambda>c'. matches (c_course_id c') (JString courseId)) (courses db) = [c] \<and>
      (\<forall>e\<in>set (enrollments db). e_course_id e \<noteq> c_course_id c)"
  then have f: "filter (\<lambda>c'. matches (c_course_id c') (JString courseId)) (courses db) = [c]"
    and e: "\<forall>e\<in>set (enrollments db). e_course_id e \<noteq> c_course_id c"
    by simp_all
  have r: "course_details_rows matches db (JString courseId) =
    [[(''course_id'', SqlInt (c_course_id c)),
      (''course_name'', SqlStr (c_course_name c)),
      (''credits'', SqlInt (c_credits c)),
      (''department'', SqlStr (c_department c)),
      (''total_students'', SqlInt 0),
      (''grade_levels_represented'', SqlInt 0),
      (''count_A'', SqlDec 0),
      (''count_B'', SqlDec 0),
      (''count_C'', SqlDec 0),
      (''count_D'', SqlDec 0),
      (''count_F'', SqlDec 0),
      (''percent_A'', SqlDec 0),
      (''percent_B'', SqlDec 0),
      (''average_gpa'', SqlNull),
      (''latest_enrollment'', SqlNull),
      (''top_student_example'', SqlNull)]]"
    using f e by (rule course_details_rows_without_enrollments)
  show "status (course_details pool_query courseId) = 200"
    by (simp add: course_details_def assms r res_json_def)
  show "body (course_details pool_query courseId) =
          [(''success'', JBool True),
           (''data'',
              JRow [(''course_id'', SqlInt (c_course_id c)),
                    (''course_name'', SqlStr (c_course_name c)),
                    (''credits'', SqlInt (c_credits c)),
                    (''department'', SqlStr (c_department c)),
                    (''total_students'', SqlInt 0),
                    (''grade_levels_represented'', SqlInt 0),
                    (''count_A'', SqlDec 0),
                    (''count_B'', SqlDec 0),
                    (''count_C'', SqlDec 0),
                    (''count_D'', SqlDec 0),
                    (''count_F'', SqlDec 0),
                    (''percent_A'', SqlDec 0),
                    (''percent_B'', SqlDec 0),
                    (''average_gpa'', SqlNull),
                    (''latest_enrollment'', SqlNull),
                    (''top_student_example'', SqlNull)])]"
    by (simp add: course_details_def assms r res_json_def)
qed

lemma parseInt_text_17: "parseInt_text ''17'' = Num 17"
  by (simp add: parse_defs to_double_small)

lemma parseInt_text_99: "parseInt_text ''99'' = Num 99"
  by (simp add: parse_defs to_double_small)

theorem course_details_not_found_only_for_unknown_id_witness:
  "status (course_details
      (answering (course_details_rows matches_decimal sample_db (JString ''99''))) ''99'') = 404 \<and>
   map_of (body (course_details
      (answering (course_details_rows matches_decimal sample_db (JString ''99''))) ''99''))
      ''data'' = None \<and>
   status (course_details
      (answering (course_details_rows matches_decimal sample_db (JString ''17''))) ''17'') = 200 \<and>
   map_of (body (course_details
      (answering (course_details_rows matches_decimal sample_db (JString ''17''))) ''17''))
      ''success'' = Some (JBool True)"
proof -
  let ?c = "hd (tl (tl (courses sample_db)))"
  have u: "\<forall>c\<in>set (courses sample_db). \<not> matches_decimal (c_course_id c) (JString ''99'')"
    by (simp add: sample_db_def matches_decimal_def parseInt_text_99)
  have f: "filter (\<lambda>c'. matches_decimal (c_course_id c') (JString ''17'')) (courses sample_db) = [?c]"
    by (simp add: sample_db_def matches_decimal_def parseInt_text_17)
  have e: "\<forall>e\<in>set (enrollments sample_db). e_course_id e \<noteq> c_course_id ?c"
    by (simp add: sample_db_def)
  have p: "\<And>rows call. answering rows call = Inr rows"
    by (simp add: answering_def)
  from course_details_not_found_only_for_unknown_id
    [of "answering (course_details_rows matches_decimal sample_db (JString ''99''))" "''99''"
       matches_decimal sample_db ?c, OF p] u
  have n: "status (course_details
      (answering (course_details_rows matches_decimal sample_db (JString ''99''))) ''99'') = 404"
    "body (course_details
      (answering (course_details_rows matches_decimal sample_db (JString ''99''))) ''99'') =
      [(''success'', JBool False), (''error'', JString ''Course not found'')]"
    by blast+
  from course_details_not_found_only_for_unknown_id
    [of "answering (course_details_rows matches_decimal sample_db (JString ''17''))" "''17''"
       matches_decimal sample_db ?c, OF p] f e
  have y: "status (course_details
      (answering (course_details_rows matches_decimal sample_db (JString ''17''))) ''17'') = 200"
    "map_of (body (course_details
      (answering (course_details_rows matches_decimal sample_db (JString ''17''))) ''17''))
      ''success'' = Some (JBool True)"
    by simp_all
  from n y show ?thesis by simp
qed

subsection \<open>Top performers: thresholds, order and limit\<close>
















end
